theory Spec2Isabelle
  imports Main
begin

section \<open>Sources\<close>

text \<open>
  The development follows five programs of the repository: the webhook router that
  reads the raw body and verifies the signature itself (\<open>src/unnamed/part_002\<close>; line
  numbers below refer to it), the same interaction handling under the Bolt receiver
  (\<open>src/api/slack/events.ts\<close>), the two scheduler endpoints
  (\<open>src/api/cron/daily-checkin.ts\<close> and the second program in \<open>events.ts\<close>), and the
  script \<open>send-daily-checkins.ts\<close> (\<open>src/unnamed/part_000\<close>).
\<close>

section \<open>Strings and the JavaScript primitives the handlers rely on\<close>

text \<open>
  A \<^typ>\<open>string\<close> is a list of 8-bit code units. A request header has one unit per
  Latin-1 character (the way the HTTP parser delivers it); text beyond ASCII that the
  program itself writes (the mood symbols) is given in its UTF-8 bytes.
  An absent value (\<open>undefined\<close> or \<open>null\<close>) is \<open>None\<close>.
\<close>

definition truthy :: "string option \<Rightarrow> bool" where
  \<comment> \<open>JavaScript truthiness of a string-or-undefined value: \<open>""\<close> is falsy.\<close>
  "truthy v = (case v of None \<Rightarrow> False | Some s \<Rightarrow> s \<noteq> [])"

definition js_or :: "string option \<Rightarrow> string option \<Rightarrow> string option" where
  \<comment> \<open>\<open>a || b\<close>\<close>
  "js_or a b = (if truthy a then a else b)"

definition startsWith :: "string \<Rightarrow> string \<Rightarrow> bool" where
  \<comment> \<open>\<open>s.startsWith(p)\<close>\<close>
  "startsWith s p = (take (length p) s = p)"

text \<open>\<open>s.includes(p)\<close>: \<open>p\<close> occurs somewhere in \<open>s\<close>.\<close>

fun includes_str :: "string \<Rightarrow> string \<Rightarrow> bool" where
  "includes_str [] p = (p = [])"
| "includes_str (c # cs) p = (startsWith (c # cs) p \<or> includes_str cs p)"

datatype exn = RangeError | TypeError | SyntaxError | ApiError

subsection \<open>parseInt\<close>

text \<open>
  \<open>parseInt(s)\<close> without a radix: leading white space is dropped, one sign is read,
  a \<open>0x\<close> prefix selects radix 16, and the longest run of digits is converted; with
  no digit the result is \<open>NaN\<close>, here \<open>None\<close>. The result is an \<^typ>\<open>int\<close>: the
  runtime holds it in a double, exact below \<open>2^53\<close> and rounded from there on, and the
  rounding is not modelled; the one use made of the value, the comparison of a distance
  from the clock with 300, has the same outcome either way. White space is that of the
  8-bit units (tab, line feed, vertical tab, form feed, carriage return, space,
  no-break space); the white space beyond them is not represented.
\<close>

definition is_white :: "char \<Rightarrow> bool" where
  "is_white c = (of_char c \<in> {9, 10, 11, 12, 13, 32, 160 :: nat})"

definition digit_of :: "nat \<Rightarrow> char \<Rightarrow> nat option" where
  "digit_of radix c =
     (let n = (of_char c :: nat);
          v = (if 48 \<le> n \<and> n \<le> 57 then Some (n - 48)
               else if 97 \<le> n \<and> n \<le> 122 then Some (n - 87)
               else if 65 \<le> n \<and> n \<le> 90 then Some (n - 55)
               else None)
      in case v of None \<Rightarrow> None | Some d \<Rightarrow> if d < radix then Some d else None)"

definition digits_value :: "nat \<Rightarrow> string \<Rightarrow> nat" where
  "digits_value radix ds =
     foldl (\<lambda>acc c. acc * radix + (case digit_of radix c of None \<Rightarrow> 0 | Some d \<Rightarrow> d)) 0 ds"

definition parseInt :: "string \<Rightarrow> int option" where
  "parseInt s =
     (let s1 = dropWhile is_white s;
          neg = startsWith s1 ''-'';
          s2 = (if startsWith s1 ''-'' \<or> startsWith s1 ''+'' then drop 1 s1 else s1);
          hex = (startsWith s2 ''0x'' \<or> startsWith s2 ''0X'');
          radix = (if hex then 16 else 10);
          s3 = (if hex then drop 2 s2 else s2);
          ds = takeWhile (\<lambda>c. digit_of radix c \<noteq> None) s3
      in if ds = [] then None
         else Some ((if neg then - 1 else 1) * int (digits_value radix ds)))"

subsection \<open>Buffers and the constant-time comparison\<close>

text \<open>
  \<open>Buffer.from(s)\<close> encodes a string in UTF-8: a unit below 128 is one byte, a
  Latin-1 unit from 128 on is two. \<open>crypto.timingSafeEqual\<close> compares two buffers of
  the same byte length and throws a \<open>RangeError\<close> when the lengths differ.
\<close>

definition utf8_unit :: "char \<Rightarrow> nat list" where
  "utf8_unit c =
     (let n = (of_char c :: nat)
      in if n < 128 then [n] else [192 + n div 64, 128 + n mod 64])"

definition Buffer_from :: "string \<Rightarrow> nat list" where
  "Buffer_from s = concat (map utf8_unit s)"

definition timingSafeEqual :: "nat list \<Rightarrow> nat list \<Rightarrow> exn + bool" where
  "timingSafeEqual a b = (if length a \<noteq> length b then Inl RangeError else Inr (a = b))"

section \<open>The webhook router: request signature\<close>

text \<open>
  The environment variables the handlers read; an unset variable is \<open>None\<close>.
\<close>

record env_vars =
  SLACK_SIGNING_SECRET :: "string option"
  MOOD_CHANNEL_ID :: "string option"
  CRON_SECRET :: "string option"
  SKIP_WEEKENDS :: "string option"
  MOOD_USER_IDS :: "string option"

record request =
  req_method :: string
  content_type :: "string option"
  x_slack_request_timestamp :: "string option"
  x_slack_signature :: "string option"
  authorization :: "string option"
  rawBody :: string

text \<open>
  \<open>verifySlackSignature\<close>. The keyed hash \<open>crypto.createHmac("sha256", key)\<close>
  with \<open>.update(msg).digest("hex")\<close> is a library function and is taken as the
  parameter \<open>hmac_hex key msg\<close>; with no key \<open>createHmac\<close> throws a \<open>TypeError\<close>.
  \<open>now_ms\<close> is \<open>Date.now()\<close>.
\<close>

definition sigBasestring :: "string \<Rightarrow> string \<Rightarrow> string" where
  "sigBasestring timestamp body = ''v0:'' @ timestamp @ '':'' @ body"

definition verifySlackSignature ::
  "(string \<Rightarrow> string \<Rightarrow> string) \<Rightarrow> env_vars \<Rightarrow> int \<Rightarrow> request \<Rightarrow> string \<Rightarrow> exn + bool" where
  "verifySlackSignature hmac_hex env now_ms req body =
     (case (x_slack_request_timestamp req, x_slack_signature req) of
        (Some timestamp, Some signature) \<Rightarrow>
          if timestamp = [] \<or> signature = [] then Inr False
          else
            let time = now_ms div 1000 in
            if (case parseInt timestamp of None \<Rightarrow> False | Some t \<Rightarrow> \<bar>time - t\<bar> > 300)
            then Inr False
            else
              (case SLACK_SIGNING_SECRET env of
                 None \<Rightarrow> Inl TypeError
               | Some signingSecret \<Rightarrow>
                   let mySignature = ''v0='' @ hmac_hex signingSecret (sigBasestring timestamp body)
                   in timingSafeEqual (Buffer_from mySignature) (Buffer_from signature))
      | _ \<Rightarrow> Inr False)"

section \<open>Mood configuration and the data carried through a check-in\<close>

record mood =
  score :: int
  emoji :: string
  label :: string
  action_id :: string

definition MOODS :: "mood list" where
  "MOODS =
     [\<lparr>score = 1, emoji = [CHR 0xF0, CHR 0x9F, CHR 0x98, CHR 0xAD], label = ''Awful'', action_id = ''mood_1''\<rparr>,
      \<lparr>score = 2, emoji = [CHR 0xE2, CHR 0x98, CHR 0xB9, CHR 0xEF, CHR 0xB8, CHR 0x8F], label = ''Not great'', action_id = ''mood_2''\<rparr>,
      \<lparr>score = 3, emoji = [CHR 0xF0, CHR 0x9F, CHR 0x98, CHR 0x90], label = ''Okay'', action_id = ''mood_3''\<rparr>,
      \<lparr>score = 4, emoji = [CHR 0xF0, CHR 0x9F, CHR 0x99, CHR 0x82], label = ''Good'', action_id = ''mood_4''\<rparr>,
      \<lparr>score = 5, emoji = [CHR 0xF0, CHR 0x9F, CHR 0x98, CHR 0x84], label = ''Great'', action_id = ''mood_5''\<rparr>]"

text \<open>
  The value of a button and the \<open>private_metadata\<close> of the form are JSON texts written
  by \<open>JSON.stringify\<close> and read back by \<open>JSON.parse\<close>. They are represented by the
  object they encode; a field that is \<open>undefined\<close> is dropped by \<open>JSON.stringify\<close> and
  read back as \<open>undefined\<close>, which is \<open>None\<close> on both sides.
\<close>

record mood_data =
  data_score :: int
  data_emoji :: string
  source_channel_id :: "string option"
  data_response_url :: "string option"

record button =
  button_text :: string
  button_value :: mood_data
  button_action_id :: string

record metadata =
  meta_score :: int
  meta_emoji :: string
  channel_id :: "string option"
  message_ts :: "string option"
  response_url :: "string option"

text \<open>
  The buttons of the \<open>actions\<close> block of \<open>buildMoodMessage\<close>; the greeting section
  above it depends on the hour of the day only and is left out.
\<close>

definition buildMoodMessage :: "string option \<Rightarrow> string option \<Rightarrow> button list" where
  "buildMoodMessage sourceChannelId responseUrl =
     map (\<lambda>mood.
            \<lparr>button_text = emoji mood,
             button_value = \<lparr>data_score = score mood, data_emoji = emoji mood,
                             source_channel_id = sourceChannelId,
                             data_response_url = responseUrl\<rparr>,
             button_action_id = action_id mood\<rparr>) MOODS"

subsection \<open>The table\<close>

text \<open>
  One row of \<open>mood_entries\<close>, with the columns the program supplies; \<open>id\<close>,
  \<open>recorded_at\<close> and \<open>created_at\<close> are filled in by the store. The table is the
  list of its rows in insertion order. An insert returns an error object instead of
  throwing; it fails when the store is unavailable or when the row violates the
  \<open>CHECK (mood_score >= 1 AND mood_score <= 5)\<close> constraint of the schema.
\<close>

record mood_entry =
  slack_user_id :: string
  slack_username :: "string option"
  slack_display_name :: "string option"
  mood_score :: int
  mood_emoji :: string
  additional_context :: "string option"
  slack_team_id :: "string option"

definition mood_score_check :: "mood_entry \<Rightarrow> bool" where
  "mood_score_check r = (mood_score r \<ge> 1 \<and> mood_score r \<le> 5)"

definition insert_entry :: "bool \<Rightarrow> mood_entry list \<Rightarrow> mood_entry \<Rightarrow> bool \<times> mood_entry list" where
  \<comment> \<open>the result is (error, table afterwards)\<close>
  "insert_entry store_fails table r =
     (if store_fails \<or> \<not> mood_score_check r then (True, table) else (False, table @ [r]))"

subsection \<open>The chat platform and the trace of calls\<close>

text \<open>
  What the outside world answers. \<open>users_info\<close> is \<open>client.users.info\<close>: it throws,
  or returns a response whose \<open>user\<close> may be missing. Every other call either
  returns or throws; one flag per call site says which. \<open>conversations_members\<close>
  answers one page request (channel, cursor) with the members of the page and the next
  cursor; \<open>prompt_post_error\<close> gives, for the conversation a check-in prompt is posted
  to, the message of the error thrown, if any.
\<close>

record user_info =
  user_name :: "string option"
  profile_display_name :: "string option"
  profile_real_name :: "string option"
  is_bot :: bool
  deleted :: bool

datatype 'a api_result = Returned 'a | Threw string

record slack =
  users_info :: "string \<Rightarrow> user_info option api_result"
  views_open_throws :: bool
  insert_fails :: bool
  select_fails :: bool
  chat_update_throws :: bool
  fetch_throws :: bool
  confirmation_throws :: bool
  dm_confirmation_throws :: bool
  mood_channel_post_throws :: bool
  conversations_members :: "string \<Rightarrow> string option \<Rightarrow> (string list option \<times> string option) api_result"
  prompt_post_error :: "string \<Rightarrow> string option"

text \<open>
  The calls a handler makes, in order, one constructor per call site:
  \<open>ChatUpdate\<close> the in-place edit of the original message; \<open>ResponseUrlPost\<close>,
  \<open>ConversationPost\<close> and \<open>EphemeralPost\<close> the three fallback confirmations;
  \<open>DirectMessage\<close> the confirmation sent to the submitter; \<open>MoodChannelPost\<close> the
  announcement; \<open>PromptPost\<close> a check-in prompt sent by the scheduled sender.
  A call is recorded when it is made, whether it then returns or throws.
  \<open>ConsoleLog\<close> and \<open>ConsoleError\<close> are lines written to the console; their text
  is not kept.
\<close>

datatype effect =
    UsersInfo string
  | Insert mood_entry
  | ViewsOpen "string option" metadata
  | ChatUpdate string string string string
  | ResponseUrlPost string string
  | ConversationPost string string
  | EphemeralPost string string string
  | DirectMessage string string
  | MoodChannelPost string string
  | PromptPost string "button list"
  | ConsoleLog
  | ConsoleError

section \<open>Persist and notify: \<open>saveMoodEntry\<close>\<close>

definition displayName_of :: "user_info option \<Rightarrow> string" where
  \<comment> \<open>\<open>display_name || real_name || "Someone"\<close>\<close>
  "displayName_of user =
     (case user of
        None \<Rightarrow> ''Someone''
      | Some u \<Rightarrow>
          (case js_or (profile_display_name u) (profile_real_name u) of
             Some n \<Rightarrow> if n = [] then ''Someone'' else n
           | None \<Rightarrow> ''Someone''))"

definition context_suffix :: "string option \<Rightarrow> string" where
  \<comment> \<open>\<open>contextValue ? ` - "${contextValue}"` : ""\<close>\<close>
  "context_suffix contextValue =
     (case contextValue of
        None \<Rightarrow> []
      | Some c \<Rightarrow> if c = [] then [] else '' - '' @ [CHR 0x22] @ c @ [CHR 0x22])"

definition check_mark :: string where
  "check_mark = [CHR 0xE2, CHR 0x9C, CHR 0x85]"

definition confirmationText :: "string \<Rightarrow> metadata \<Rightarrow> string option \<Rightarrow> string" where
  "confirmationText displayName md contextValue =
     check_mark @ '' *'' @ displayName @ ''*, your mood has been logged: '' @ meta_emoji md
       @ context_suffix contextValue"

text \<open>Lines 250--265: the edit of the original message; the result says whether it succeeded.\<close>

definition updateOriginal :: "slack \<Rightarrow> metadata \<Rightarrow> string \<Rightarrow> effect list \<times> bool" where
  "updateOriginal sl md displayName =
     (case (channel_id md, message_ts md) of
        (Some c, Some ts) \<Rightarrow>
          if c \<noteq> [] \<and> ts \<noteq> [] then
            (let call = ChatUpdate c ts
                          (check_mark @ '' *'' @ displayName @ ''* is feeling '' @ meta_emoji md @ '' today.'')
                          (''Mood recorded: '' @ displayName @ '' - '' @ meta_emoji md)
             in if chat_update_throws sl
                then ([call, ConsoleLog], False)
                else ([call], True))
          else ([], False)
      | _ \<Rightarrow> ([], False))"

text \<open>Lines 268--293: the fallback confirmation, sent when the edit did not succeed.\<close>

definition sendConfirmation :: "slack \<Rightarrow> metadata \<Rightarrow> string \<Rightarrow> string \<Rightarrow> effect list" where
  "sendConfirmation sl md userId text =
     (if truthy (response_url md) then
        (case response_url md of
           Some url \<Rightarrow>
             ResponseUrlPost url text #
               (if fetch_throws sl then [ConsoleLog] else [])
         | None \<Rightarrow> [])
      else if truthy (channel_id md) then
        (case channel_id md of
           Some c \<Rightarrow>
             (let isDM = startsWith c ''D''
              in (if isDM then ConversationPost c text else EphemeralPost c userId text) #
                 (if confirmation_throws sl then [ConsoleLog] else []))
         | None \<Rightarrow> [])
      else [])"

text \<open>Lines 302--312: the post to the mood channel, if one is configured.\<close>

definition postToMoodChannel :: "env_vars \<Rightarrow> slack \<Rightarrow> string \<Rightarrow> effect list" where
  "postToMoodChannel env sl text =
     (case MOOD_CHANNEL_ID env of
        Some moodChannelId \<Rightarrow>
          if moodChannelId \<noteq> [] then
            MoodChannelPost moodChannelId text #
              (if mood_channel_post_throws sl then [ConsoleLog] else [])
          else []
      | None \<Rightarrow> [])"

text \<open>
  \<open>saveMoodEntry\<close> (lines 224--316). The result of the insert is not looked at. A
  throw of \<open>users.info\<close> or of the direct-message confirmation reaches the outer
  \<open>catch\<close>, which logs and ends the sequence.
\<close>

definition saveMoodEntry ::
  "env_vars \<Rightarrow> slack \<Rightarrow> mood_entry list \<Rightarrow> string \<Rightarrow> metadata \<Rightarrow> string option \<Rightarrow> string option
     \<Rightarrow> effect list \<times> mood_entry list" where
  "saveMoodEntry env sl table userId md contextValue teamId =
     (case users_info sl userId of
        Threw e \<Rightarrow> ([UsersInfo userId, ConsoleError], table)
      | Returned user \<Rightarrow>
          (let displayName = displayName_of user;
               row = \<lparr>slack_user_id = userId,
                      slack_username = (case user of None \<Rightarrow> None | Some u \<Rightarrow> user_name u),
                      slack_display_name = Some displayName,
                      mood_score = meta_score md,
                      mood_emoji = meta_emoji md,
                      additional_context = contextValue,
                      slack_team_id = teamId\<rparr>;
               table' = snd (insert_entry (insert_fails sl) table row);
               (updateCalls, messageUpdated) = updateOriginal sl md displayName;
               confirmCalls =
                 (if \<not> messageUpdated
                  then sendConfirmation sl md userId (confirmationText displayName md contextValue)
                  else []);
               calls = [UsersInfo userId, Insert row] @ updateCalls @ confirmCalls
                         @ [DirectMessage userId (confirmationText displayName md contextValue)]
           in if dm_confirmation_throws sl
              then (calls @ [ConsoleError], table')
              else (calls @ postToMoodChannel env sl
                              (''*'' @ displayName @ ''* is feeling '' @ meta_emoji md @ '' today''
                                 @ context_suffix contextValue),
                    table')))"

section \<open>The webhook router: classification and dispatch\<close>

text \<open>
  The parsed request body. The handler reads a handful of properties of it; \<open>BodyNull\<close>
  is the JSON text \<open>null\<close> (reading a property of it throws), \<open>BodyOther\<close> a string,
  number, boolean or array, on which every property read here is \<open>undefined\<close>.
\<close>

record body_fields =
  body_type :: "string option"
  challenge :: "string option"
  command :: "string option"
  body_payload :: "string option"
  body_channel_id :: "string option"
  body_response_url :: "string option"
  body_user_id :: "string option"

datatype body = BodyNull | BodyOther | BodyObject body_fields

definition field :: "(body_fields \<Rightarrow> 'a option) \<Rightarrow> body \<Rightarrow> 'a option" where
  \<comment> \<open>\<open>body?.f\<close>\<close>
  "field f b = (case b of BodyObject obj \<Rightarrow> f obj | _ \<Rightarrow> None)"

text \<open>
  The decoded interaction payload: \<open>payload_channel_id\<close> is \<open>payload.channel?.id\<close>,
  \<open>payload_message_ts\<close> is \<open>payload.message?.ts\<close>, \<open>context_input_value\<close> is
  \<open>view.state.values.context_block?.context_input?.value\<close>, \<open>user_id\<close> is
  \<open>payload.user.id\<close> and \<open>team_id\<close> is \<open>payload.team?.id\<close>.
\<close>

record action =
  act_action_id :: string
  act_value :: mood_data

record view =
  callback_id :: string
  private_metadata :: metadata
  context_input_value :: "string option"

record payload =
  payload_type :: "string option"
  actions :: "action list"
  payload_channel_id :: "string option"
  payload_message_ts :: "string option"
  trigger_id :: "string option"
  payload_view :: "view option"
  user_id :: string
  team_id :: "string option"

text \<open>What a handler sends back, or the exception that ends it.\<close>

record send_result =
  result_userId :: string
  success :: bool
  result_error :: "string option"

datatype reply =
    JsonError string
  | JsonChallenge "string option"
  | Empty
  | JsonBlocks "button list"
  | JsonText string
  | JsonRecentMoods "mood_entry list"
  | JsonMessage string
  | JsonFailure string string
  | JsonResults string "send_result list"

datatype outcome = Responded nat reply | Raised exn

text \<open>
  The library functions of the runtime, as parameters: the keyed hash, \<open>JSON.parse\<close>
  on the request body (\<open>None\<close> is its \<open>SyntaxError\<close>), \<open>URLSearchParams\<close> with
  \<open>Object.fromEntries\<close>, and \<open>JSON.parse\<close> on the \<open>payload\<close> field.
\<close>

record runtime =
  hmac_hex :: "string \<Rightarrow> string \<Rightarrow> string"
  JSON_parse :: "string \<Rightarrow> body option"
  URLSearchParams :: "string \<Rightarrow> body_fields"
  JSON_parse_payload :: "string \<Rightarrow> payload option"

text \<open>
  \<open>handleSlashCommand\<close>. For \<open>/my-moods\<close> the reply is given by the rows it is
  rendered from (the last seven of the user, newest first); the rendering itself, with
  dates and the average, is not modelled.
\<close>

definition handleSlashCommand :: "slack \<Rightarrow> mood_entry list \<Rightarrow> body_fields \<Rightarrow> outcome" where
  "handleSlashCommand sl table b =
     (if command b = Some ''/mood'' then
        Responded 200 (JsonBlocks (buildMoodMessage (body_channel_id b) (body_response_url b)))
      else if command b = Some ''/my-moods'' then
        (let data = take 7 (rev (filter (\<lambda>r. Some (slack_user_id r) = body_user_id b) table))
         in if select_fails sl \<or> data = []
            then Responded 200 (JsonText ''No mood entries found yet. Use `/mood` to log your first one!'')
            else Responded 200 (JsonRecentMoods data))
      else Responded 200 (JsonText ''Unknown command''))"

text \<open>
  \<open>handleInteraction\<close>. \<open>saveMoodEntry\<close> is started without being awaited: its calls
  follow the empty acknowledgement.
\<close>

definition handleInteraction ::
  "env_vars \<Rightarrow> slack \<Rightarrow> mood_entry list \<Rightarrow> payload \<Rightarrow> outcome \<times> effect list \<times> mood_entry list" where
  "handleInteraction env sl table payload =
     (if payload_type payload = Some ''block_actions'' then
        (case actions payload of
           [] \<Rightarrow> (Raised TypeError, [], table)
         | action # _ \<Rightarrow>
             if startsWith (act_action_id action) ''mood_'' then
               (let moodData = act_value action;
                    channelId = js_or (source_channel_id moodData) (payload_channel_id payload);
                    call = ViewsOpen (trigger_id payload)
                             \<lparr>meta_score = data_score moodData,
                              meta_emoji = data_emoji moodData,
                              channel_id = channelId,
                              message_ts = payload_message_ts payload,
                              response_url = data_response_url moodData\<rparr>
                in if views_open_throws sl then (Raised ApiError, [call], table)
                   else (Responded 200 Empty, [call], table))
             else (Responded 200 Empty, [], table))
      else if payload_type payload = Some ''view_submission'' then
        (case payload_view payload of
           None \<Rightarrow> (Raised TypeError, [], table)
         | Some view \<Rightarrow>
             if callback_id view = ''mood_context_modal'' then
               (let metadata = private_metadata view;
                    contextValue = js_or (context_input_value view) None;
                    userId = user_id payload;
                    (calls, table') =
                      saveMoodEntry env sl table userId metadata contextValue (team_id payload)
                in (Responded 200 Empty, calls, table'))
             else (Responded 200 Empty, [], table))
      else if payload_type payload = Some ''view_closed'' then
        (case payload_view payload of
           None \<Rightarrow> (Raised TypeError, [], table)
         | Some view \<Rightarrow>
             if callback_id view = ''mood_context_modal'' then
               (let metadata = private_metadata view;
                    userId = user_id payload;
                    (calls, table') =
                      saveMoodEntry env sl table userId metadata None (team_id payload)
                in (Responded 200 Empty, calls, table'))
             else (Responded 200 Empty, [], table))
      else (Responded 200 Empty, [], table))"

text \<open>Lines 349--366 of the main handler: what happens to a request that passed verification.\<close>

definition dispatch ::
  "runtime \<Rightarrow> env_vars \<Rightarrow> slack \<Rightarrow> mood_entry list \<Rightarrow> body \<Rightarrow> outcome \<times> effect list \<times> mood_entry list" where
  "dispatch rt env sl table b =
     (case b of
        BodyNull \<Rightarrow> (Raised TypeError, [], table)
      | BodyOther \<Rightarrow> (Responded 200 Empty, [], table)
      | BodyObject obj \<Rightarrow>
          if truthy (command obj) then (handleSlashCommand sl table obj, [], table)
          else if truthy (body_payload obj) then
            (case body_payload obj of
               None \<Rightarrow> (Responded 200 Empty, [], table)
             | Some p \<Rightarrow>
                 (case JSON_parse_payload rt p of
                    None \<Rightarrow> (Raised SyntaxError, [], table)
                  | Some payload \<Rightarrow> handleInteraction env sl table payload))
          else if body_type obj = Some ''event_callback'' then (Responded 200 Empty, [], table)
          else (Responded 200 Empty, [], table))"

text \<open>
  The main handler (lines 319--367): method, raw body, parsing by content type, the
  challenge, the signature, dispatch.
\<close>

definition parse_body :: "runtime \<Rightarrow> string \<Rightarrow> string \<Rightarrow> body option" where
  "parse_body rt contentType raw =
     (if includes_str contentType ''application/json'' then JSON_parse rt raw
      else if includes_str contentType ''application/x-www-form-urlencoded''
      then Some (BodyObject (URLSearchParams rt raw))
      else Some BodyOther)"

definition handler ::
  "runtime \<Rightarrow> env_vars \<Rightarrow> slack \<Rightarrow> int \<Rightarrow> mood_entry list \<Rightarrow> request
     \<Rightarrow> outcome \<times> effect list \<times> mood_entry list" where
  "handler rt env sl now_ms table req =
     (if req_method req \<noteq> ''POST'' then (Responded 405 (JsonError ''Method not allowed''), [], table)
      else
        (let contentType = (case content_type req of None \<Rightarrow> [] | Some c \<Rightarrow> c)
         in case parse_body rt contentType (rawBody req) of
              None \<Rightarrow> (Raised SyntaxError, [], table)
            | Some b \<Rightarrow>
                if field body_type b = Some ''url_verification''
                then (Responded 200 (JsonChallenge (field challenge b)), [], table)
                else
                  (case verifySlackSignature (hmac_hex rt) env now_ms req (rawBody req) of
                     Inl e \<Rightarrow> (Raised e, [], table)
                   | Inr ok \<Rightarrow>
                       if \<not> ok
                       then (Responded 401 (JsonError ''Invalid signature''),
                             [ConsoleLog], table)
                       else dispatch rt env sl table b)))"

section \<open>The same sequence under the Bolt receiver (\<open>api/slack/events.ts\<close>)\<close>

text \<open>
  The two \<open>app.view\<close> listeners for \<open>mood_context_modal\<close>. They have no outer
  \<open>try\<close>: a throw ends the listener. The stored display name has no placeholder.
\<close>

definition stored_display_name :: "user_info option \<Rightarrow> string option" where
  \<comment> \<open>\<open>userInfo.user?.profile?.display_name || userInfo.user?.profile?.real_name\<close>\<close>
  "stored_display_name user =
     (case user of None \<Rightarrow> None | Some u \<Rightarrow> js_or (profile_display_name u) (profile_real_name u))"

definition view_submission_listener ::
  "env_vars \<Rightarrow> slack \<Rightarrow> mood_entry list \<Rightarrow> view \<Rightarrow> string \<Rightarrow> string option
     \<Rightarrow> effect list \<times> mood_entry list" where
  "view_submission_listener env sl table view userId teamId =
     (let metadata = private_metadata view;
          contextValue = js_or (context_input_value view) None
      in case users_info sl userId of
           Threw e \<Rightarrow> ([UsersInfo userId], table)
         | Returned user \<Rightarrow>
             (let row = \<lparr>slack_user_id = userId,
                         slack_username = (case user of None \<Rightarrow> None | Some u \<Rightarrow> user_name u),
                         slack_display_name = stored_display_name user,
                         mood_score = meta_score metadata,
                         mood_emoji = meta_emoji metadata,
                         additional_context = contextValue,
                         slack_team_id = teamId\<rparr>;
                  (error, table') = insert_entry (insert_fails sl) table row
              in if error then ([UsersInfo userId, Insert row, ConsoleError], table')
                 else
                   (let displayName = displayName_of user;
                        (updateCalls, messageUpdated) = updateOriginal sl metadata displayName;
                        confirmCalls =
                          (if \<not> messageUpdated
                           then sendConfirmation sl metadata userId
                                  (confirmationText displayName metadata contextValue)
                           else []);
                        calls = [UsersInfo userId, Insert row] @ updateCalls @ confirmCalls
                                  @ [DirectMessage userId
                                       (confirmationText displayName metadata contextValue)]
                    in if dm_confirmation_throws sl then (calls, table')
                       else (calls @ postToMoodChannel env sl
                                       (''*'' @ displayName @ ''* is feeling '' @ meta_emoji metadata
                                          @ '' today'' @ context_suffix contextValue),
                             table'))))"

definition view_closed_listener ::
  "env_vars \<Rightarrow> slack \<Rightarrow> mood_entry list \<Rightarrow> view \<Rightarrow> string \<Rightarrow> string option
     \<Rightarrow> effect list \<times> mood_entry list" where
  "view_closed_listener env sl table view userId teamId =
     (let metadata = private_metadata view
      in case users_info sl userId of
           Threw e \<Rightarrow> ([UsersInfo userId], table)
         | Returned user \<Rightarrow>
             (let row = \<lparr>slack_user_id = userId,
                         slack_username = (case user of None \<Rightarrow> None | Some u \<Rightarrow> user_name u),
                         slack_display_name = stored_display_name user,
                         mood_score = meta_score metadata,
                         mood_emoji = meta_emoji metadata,
                         additional_context = None,
                         slack_team_id = teamId\<rparr>;
                  (error, table') = insert_entry (insert_fails sl) table row;
                  errorLog = (if error then [ConsoleError] else []);
                  displayName = displayName_of user;
                  (updateCalls, messageUpdated) = updateOriginal sl metadata displayName;
                  confirmCalls =
                    (if \<not> messageUpdated
                     then sendConfirmation sl metadata userId
                            (confirmationText displayName metadata None)
                     else [])
              in ([UsersInfo userId, Insert row] @ errorLog @ updateCalls @ confirmCalls
                    @ postToMoodChannel env sl
                        (''*'' @ displayName @ ''* is feeling '' @ meta_emoji metadata @ '' today''),
                  table')))"

text \<open>
  The exported handler of that file: the challenge is answered at once, anything else
  goes to the receiver of the framework, a parameter here. \<open>parsed\<close> is \<open>req.body\<close>.
\<close>

definition events_handler ::
  "(request \<Rightarrow> outcome \<times> effect list \<times> mood_entry list) \<Rightarrow> mood_entry list
     \<Rightarrow> body option \<Rightarrow> request \<Rightarrow> outcome \<times> effect list \<times> mood_entry list" where
  "events_handler receiver_app table parsed req =
     (case parsed of
        Some b \<Rightarrow>
          if field body_type b = Some ''url_verification''
          then (Responded 200 (JsonChallenge (field challenge b)), [], table)
          else receiver_app req
      | None \<Rightarrow> receiver_app req)"

section \<open>The scheduled prompt sender\<close>

text \<open>
  The clock: \<open>Date.now()\<close> in milliseconds, and the offsets from UTC, at that instant,
  of the zone \<open>Europe/London\<close> and of the zone of the host (both come from the time
  zone data of the runtime). \<open>getDay\<close> counts days from Sunday = 0; 1 January 1970 was
  a Thursday.
\<close>

record clock =
  date_now :: int
  london_offset_ms :: int
  host_offset_ms :: int

definition getDay :: "int \<Rightarrow> int \<Rightarrow> nat" where
  "getDay offset_ms now_ms = nat (((now_ms + offset_ms) div 86400000 + 4) mod 7)"

definition weekday_short :: "nat \<Rightarrow> string" where
  \<comment> \<open>\<open>toLocaleString("en-GB", {weekday: "short"})\<close>\<close>
  "weekday_short d = [''Sun'', ''Mon'', ''Tue'', ''Wed'', ''Thu'', ''Fri'', ''Sat''] ! (d mod 7)"

definition ukDate :: "clock \<Rightarrow> string" where
  "ukDate clk = weekday_short (getDay (london_offset_ms clk) (date_now clk))"

definition bearer :: "env_vars \<Rightarrow> string" where
  \<comment> \<open>\<open>`Bearer ${process.env.CRON_SECRET}`\<close>: an unset variable prints as \<open>undefined\<close>\<close>
  "bearer env = ''Bearer '' @ (case CRON_SECRET env of None \<Rightarrow> ''undefined'' | Some s \<Rightarrow> s)"

fun split_on :: "char \<Rightarrow> string \<Rightarrow> string list" where
  "split_on sep [] = [[]]"
| "split_on sep (c # cs) =
     (if c = sep then [] # split_on sep cs
      else (case split_on sep cs of [] \<Rightarrow> [[c]] | w # ws \<Rightarrow> (c # w) # ws))"

definition trim :: "string \<Rightarrow> string" where
  "trim s = rev (dropWhile is_white (rev (dropWhile is_white s)))"

definition userIds_of :: "env_vars \<Rightarrow> string list" where
  \<comment> \<open>\<open>process.env.MOOD_USER_IDS?.split(",").filter(Boolean) || []\<close>\<close>
  "userIds_of env =
     (case MOOD_USER_IDS env of None \<Rightarrow> [] | Some s \<Rightarrow> filter (\<lambda>u. u \<noteq> []) (split_on CHR '','' s))"

fun show_nat :: "nat \<Rightarrow> string" where
  "show_nat n =
     (if n < 10 then [char_of (48 + n)] else show_nat (n div 10) @ [char_of (48 + n mod 10)])"

declare show_nat.simps [simp del]

text \<open>One prompt posted to a conversation, with the entry it adds to \<open>results\<close>.\<close>

definition send_prompt :: "slack \<Rightarrow> string \<Rightarrow> string \<Rightarrow> effect \<times> send_result" where
  "send_prompt sl channel name =
     (PromptPost channel (buildMoodMessage None None),
      (case prompt_post_error sl channel of
         None \<Rightarrow> \<lparr>result_userId = name, success = True, result_error = None\<rparr>
       | Some msg \<Rightarrow> \<lparr>result_userId = name, success = False, result_error = Some msg\<rparr>))"

subsection \<open>\<open>api/cron/daily-checkin.ts\<close>: every human member of the channel\<close>

text \<open>
  The \<open>do \<dots> while (cursor)\<close> loop over the pages of members ends only when a page
  comes without a next cursor, so it is a partial function: \<open>None\<close> is a loop that
  never ends.
\<close>

partial_function (option) fetch_members ::
  "slack \<Rightarrow> string \<Rightarrow> string option \<Rightarrow> string list \<Rightarrow> string list api_result option" where
  "fetch_members sl channelId cursor allMembers =
     (case conversations_members sl channelId cursor of
        Threw msg \<Rightarrow> Some (Threw msg)
      | Returned page \<Rightarrow>
          (let allMembers' = (case fst page of None \<Rightarrow> allMembers | Some ms \<Rightarrow> allMembers @ ms)
           in if truthy (snd page) then fetch_members sl channelId (snd page) allMembers'
              else Some (Returned allMembers')))"

definition is_human :: "slack \<Rightarrow> string \<Rightarrow> bool" where
  "is_human sl memberId =
     (case users_info sl memberId of
        Returned (Some u) \<Rightarrow> \<not> is_bot u \<and> \<not> deleted u
      | _ \<Rightarrow> False)"

definition lookup_calls :: "slack \<Rightarrow> string \<Rightarrow> effect list" where
  "lookup_calls sl memberId =
     (case users_info sl memberId of
        Threw e \<Rightarrow> [UsersInfo memberId, ConsoleLog]
      | Returned u \<Rightarrow> [UsersInfo memberId])"

definition daily_checkin_handler ::
  "env_vars \<Rightarrow> slack \<Rightarrow> clock \<Rightarrow> request \<Rightarrow> (outcome \<times> effect list) option" where
  "daily_checkin_handler env sl clk req =
     (if authorization req \<noteq> Some (bearer env)
      then Some (Responded 401 (JsonError ''Unauthorized''), [])
      else if SKIP_WEEKENDS env = Some ''true'' \<and> (ukDate clk = ''Sat'' \<or> ukDate clk = ''Sun'')
      then Some (Responded 200 (JsonMessage ''Skipped - weekend''), [])
      else
        (case MOOD_CHANNEL_ID env of
           None \<Rightarrow>
             Some (Responded 200
                     (JsonResults ''No channel configured. Set MOOD_CHANNEL_ID to specify which channel's members should receive DMs.'' []),
                   [])
         | Some channelId \<Rightarrow>
             if channelId = [] then
               Some (Responded 200
                       (JsonResults ''No channel configured. Set MOOD_CHANNEL_ID to specify which channel's members should receive DMs.'' []),
                     [])
             else
               (case fetch_members sl channelId None [] of
                  None \<Rightarrow> None
                | Some (Threw msg) \<Rightarrow>
                    Some (Responded 500 (JsonFailure ''Failed to fetch channel members'' msg), [])
                | Some (Returned allMembers) \<Rightarrow>
                    (let humanMembers = filter (is_human sl) allMembers;
                         sends = map (\<lambda>userId. send_prompt sl userId userId) humanMembers;
                         results = map snd sends
                     in Some (Responded 200
                                (JsonResults
                                   (''Daily check-in sent to '' @ show_nat (length (filter success results))
                                      @ ''/'' @ show_nat (length humanMembers) @ '' members'')
                                   results),
                              concat (map (lookup_calls sl) allMembers) @ map fst sends)))))"

subsection \<open>The cron variant beside the Bolt handler: a channel and a list of users\<close>

definition cron_handler :: "env_vars \<Rightarrow> slack \<Rightarrow> clock \<Rightarrow> request \<Rightarrow> outcome \<times> effect list" where
  "cron_handler env sl clk req =
     (if authorization req \<noteq> Some (bearer env)
      then (Responded 401 (JsonError ''Unauthorized''), [])
      else if SKIP_WEEKENDS env = Some ''true'' \<and> (ukDate clk = ''Sat'' \<or> ukDate clk = ''Sun'')
      then (Responded 200 (JsonMessage ''Skipped - weekend''), [])
      else
        (let channelSends =
               (case MOOD_CHANNEL_ID env of
                  None \<Rightarrow> []
                | Some channelId \<Rightarrow>
                    if channelId = [] then []
                    else [send_prompt sl channelId (''channel:'' @ channelId)]);
             userIds = userIds_of env;
             userSends = map (\<lambda>userId. send_prompt sl (trim userId) (trim userId)) userIds;
             calls = map fst (channelSends @ userSends)
         in if \<not> truthy (MOOD_CHANNEL_ID env) \<and> length userIds = 0
            then (Responded 200
                    (JsonResults ''No channel or users configured. Set MOOD_CHANNEL_ID or MOOD_USER_IDS.'' []),
                  calls)
            else (Responded 200 (JsonResults ''Daily check-in sent'' (map snd (channelSends @ userSends))),
                  calls)))"

subsection \<open>The one-shot script \<open>send-daily-checkins.ts\<close>\<close>

text \<open>
  \<open>main\<close> has no response: its result is the list of its calls and console lines.
  \<open>new Date().getDay()\<close> is the day of the week in the zone of the host.
\<close>

definition main :: "env_vars \<Rightarrow> slack \<Rightarrow> clock \<Rightarrow> effect list" where
  "main env sl clk =
     (let skipWeekends = (SKIP_WEEKENDS env = Some ''true'');
          day = getDay (host_offset_ms clk) (date_now clk)
      in if skipWeekends \<and> (day = 0 \<or> day = 6) then [ConsoleLog]
         else
           (let channelCalls =
                  (case MOOD_CHANNEL_ID env of
                     None \<Rightarrow> []
                   | Some channelId \<Rightarrow>
                       if channelId = [] then []
                       else [PromptPost channelId (buildMoodMessage None None),
                             (if prompt_post_error sl channelId = None then ConsoleLog else ConsoleError)]);
                userIds = userIds_of env;
                userCalls =
                  concat (map (\<lambda>userId.
                                 [PromptPost userId (buildMoodMessage None None),
                                  (if prompt_post_error sl userId = None then ConsoleLog else ConsoleError)])
                              userIds)
            in channelCalls @ userCalls
                 @ (if \<not> truthy (MOOD_CHANNEL_ID env) \<and> userIds = [] then [ConsoleLog] else [])))"

section \<open>The round trip of a check-in through the platform\<close>

text \<open>
  What the platform sends when a user acts on what the bot has shown: \<open>press b p\<close> is
  the \<open>block_actions\<close> payload for button \<open>b\<close> (the platform returns the action id
  and the value the button was built with), \<open>submit md entered p\<close> and
  \<open>dismiss md entered p\<close> are the \<open>view_submission\<close> and \<open>view_closed\<close> payloads of
  the form that was opened with the token \<open>md\<close>, with \<open>entered\<close> in its text input.
  The remaining fields (user, team, conversation) are those of \<open>p\<close>.
  \<open>token_opened\<close> reads the token off the \<open>views.open\<close> call of a trace.
  The form is opened without \<open>notify_on_close\<close>; whether the platform then reports
  a dismissal at all is its own matter, and \<open>dismiss\<close> is the payload it sends if
  it does.
\<close>

definition press :: "button \<Rightarrow> payload \<Rightarrow> payload" where
  "press b p =
     p\<lparr>payload_type := Some ''block_actions'',
       actions := [\<lparr>act_action_id = button_action_id b, act_value = button_value b\<rparr>]\<rparr>"

fun token_opened :: "effect list \<Rightarrow> metadata option" where
  "token_opened [] = None"
| "token_opened (ViewsOpen trig md # cs) = Some md"
| "token_opened (c # cs) = token_opened cs"

definition modal :: "metadata \<Rightarrow> string option \<Rightarrow> view" where
  "modal md entered =
     \<lparr>callback_id = ''mood_context_modal'', private_metadata = md, context_input_value = entered\<rparr>"

definition submit :: "metadata \<Rightarrow> string option \<Rightarrow> payload \<Rightarrow> payload" where
  "submit md entered p =
     p\<lparr>payload_type := Some ''view_submission'', payload_view := Some (modal md entered)\<rparr>"

definition dismiss :: "metadata \<Rightarrow> string option \<Rightarrow> payload \<Rightarrow> payload" where
  "dismiss md entered p =
     p\<lparr>payload_type := Some ''view_closed'', payload_view := Some (modal md entered)\<rparr>"

definition table_after :: "outcome \<times> effect list \<times> mood_entry list \<Rightarrow> mood_entry list" where
  "table_after result = snd (snd result)"

definition calls_of :: "outcome \<times> effect list \<times> mood_entry list \<Rightarrow> effect list" where
  "calls_of result = fst (snd result)"

text \<open>Vocabulary for the statements about rows.\<close>

definition without_comment :: "mood_entry \<Rightarrow> mood_entry" where
  "without_comment r = r\<lparr>additional_context := None\<rparr>"

definition defined_pair :: "mood \<Rightarrow> int \<times> string" where
  "defined_pair m = (score m, emoji m)"

definition pair_of :: "mood_entry \<Rightarrow> int \<times> string" where
  "pair_of r = (mood_score r, mood_emoji r)"

text \<open>The comment that \<open>value || null\<close> yields for an entered text.\<close>

definition stored_comment :: "string option \<Rightarrow> string option" where
  "stored_comment entered =
     (case entered of None \<Rightarrow> None | Some t \<Rightarrow> if t = [] then None else Some t)"

text \<open>
  The calls of a trace that are fallback confirmations, and those that are edits of the
  original message.
\<close>

fun is_fallback :: "effect \<Rightarrow> bool" where
  "is_fallback (ResponseUrlPost url t) = True"
| "is_fallback (ConversationPost c t) = True"
| "is_fallback (EphemeralPost c u t) = True"
| "is_fallback e = False"

fun is_edit :: "effect \<Rightarrow> bool" where
  "is_edit (ChatUpdate c ts b t) = True"
| "is_edit e = False"

section \<open>Concrete inputs\<close>

text \<open>
  A workspace, some requests and a runtime to evaluate the handlers on.
\<close>

definition example_env :: env_vars where
  "example_env =
     \<lparr>SLACK_SIGNING_SECRET = Some ''8f742231b10e8888abcd99yyyzzz85a5'',
      MOOD_CHANNEL_ID = Some ''C0123456789'',
      CRON_SECRET = Some ''s3cr3t'',
      SKIP_WEEKENDS = Some ''true'',
      MOOD_USER_IDS = Some ''U0123456789,U9876543210''\<rparr>"

definition example_user :: user_info where
  "example_user =
     \<lparr>user_name = Some ''ana'', profile_display_name = Some ''Ana'',
      profile_real_name = Some ''Ana Banana'', is_bot = False, deleted = False\<rparr>"

definition example_slack :: slack where
  "example_slack =
     \<lparr>users_info = (\<lambda>u. Returned (Some example_user)),
      views_open_throws = False,
      insert_fails = False,
      select_fails = False,
      chat_update_throws = False,
      fetch_throws = False,
      confirmation_throws = False,
      dm_confirmation_throws = False,
      mood_channel_post_throws = False,
      conversations_members = (\<lambda>c cursor. Returned (Some [''U0123456789''], None)),
      prompt_post_error = (\<lambda>c. None)\<rparr>"

text \<open>
  The scenario of the specification: the button of score 3, pressed in conversation
  \<open>C1\<close> on message \<open>T1\<close>.
\<close>

definition example_token :: metadata where
  "example_token =
     \<lparr>meta_score = 3, meta_emoji = emoji (MOODS ! 2), channel_id = Some ''C1'',
      message_ts = Some ''T1'', response_url = None\<rparr>"

definition example_payload :: payload where
  "example_payload =
     \<lparr>payload_type = None, actions = [], payload_channel_id = Some ''C1'',
      payload_message_ts = Some ''T1'', trigger_id = Some ''trigger'', payload_view = None,
      user_id = ''U0123456789'', team_id = Some ''T0001''\<rparr>"

text \<open>A token that carries neither a conversation nor a callback address.\<close>

definition bare_token :: metadata where
  "bare_token =
     \<lparr>meta_score = 3, meta_emoji = emoji (MOODS ! 2), channel_id = None,
      message_ts = None, response_url = None\<rparr>"

text \<open>
  Three JSON texts, written with \<open>quoted\<close> for their double quotes: the challenge
  handshake, an event callback, and that event callback with its last byte changed from
  \<open>}\<close> to \<open>]\<close>, which is no JSON text any more.
\<close>

definition quoted :: "string \<Rightarrow> string" where
  "quoted s = CHR 0x22 # s @ [CHR 0x22]"

definition challenge_text :: string where
  "challenge_text =
     ''{'' @ quoted ''type'' @ '':'' @ quoted ''url_verification'' @ '','' @ quoted ''challenge''
       @ '':'' @ quoted ''3eZbrw1aBm2rZgRNFdxV2595E9CY3gmdALWMmHkvFXO7tYXAYM8P'' @ ''}''"

definition event_text :: string where
  "event_text = ''{'' @ quoted ''type'' @ '':'' @ quoted ''event_callback'' @ ''}''"

definition altered_event_text :: string where
  "altered_event_text = ''{'' @ quoted ''type'' @ '':'' @ quoted ''event_callback'' @ '']''"

definition no_fields :: body_fields where
  "no_fields =
     \<lparr>body_type = None, challenge = None, command = None, body_payload = None,
      body_channel_id = None, body_response_url = None, body_user_id = None\<rparr>"

text \<open>
  The runtime of the examples. Its parsers are tables of what the library answers on
  the texts that occur in the examples: \<open>JSON.parse\<close> reads the challenge and the event
  callback and throws on the altered text; \<open>URLSearchParams\<close> reads the form body
  \<open>command=%2Fmood\<close> as the one field \<open>command\<close> with the value \<open>/mood\<close>. No example
  carries a \<open>payload\<close> field, so the parser of payloads is never reached. A text
  outside the tables gets the last answer of its table and occurs in no example. The
  keyed hash is a stand-in that returns 64 hexadecimal digits, the length of a SHA-256
  digest; the examples depend on that length only.
\<close>

definition example_runtime :: runtime where
  "example_runtime =
     \<lparr>hmac_hex = (\<lambda>key msg. replicate 64 CHR ''0''),
      JSON_parse = (\<lambda>raw.
         if raw = challenge_text
         then Some (BodyObject
                (no_fields\<lparr>body_type := Some ''url_verification'',
                            challenge := Some ''3eZbrw1aBm2rZgRNFdxV2595E9CY3gmdALWMmHkvFXO7tYXAYM8P''\<rparr>))
         else if raw = event_text
         then Some (BodyObject (no_fields\<lparr>body_type := Some ''event_callback''\<rparr>))
         else None),
      URLSearchParams = (\<lambda>raw.
         if raw = ''command=%2Fmood'' then no_fields\<lparr>command := Some ''/mood''\<rparr> else no_fields),
      JSON_parse_payload = (\<lambda>p. None)\<rparr>"

text \<open>The challenge handshake as the platform sends it: a JSON body, no signature needed.\<close>

definition example_request :: request where
  "example_request =
     \<lparr>req_method = ''POST'', content_type = Some ''application/json'',
      x_slack_request_timestamp = None, x_slack_signature = None,
      authorization = None, rawBody = challenge_text\<rparr>"

text \<open>
  Friday 7 June 2024, 23:30 UTC, on a host that runs in UTC: in London, on summer time,
  it is Saturday 8 June, 00:30.
\<close>

definition example_clock :: clock where
  "example_clock =
     \<lparr>date_now = 1717803000000, london_offset_ms = 3600000, host_offset_ms = 0\<rparr>"

text \<open>
  Three requests to the router, with the timestamp of \<open>example_clock\<close> in seconds
  where they carry one. The first is the slash command \<open>/mood\<close>, stamped \<open>abc\<close> and
  signed, for that stamp and its body, with the hash \<open>h\<close> under the signing secret of
  \<open>example_env\<close>. The second is the same command with a fresh timestamp and a
  signature of six characters. The third is the event callback with its last byte
  altered, under the timestamp and the signature of the unaltered body.
\<close>

definition unstamped_request :: "(string \<Rightarrow> string \<Rightarrow> string) \<Rightarrow> request" where
  "unstamped_request h =
     \<lparr>req_method = ''POST'', content_type = Some ''application/x-www-form-urlencoded'',
      x_slack_request_timestamp = Some ''abc'',
      x_slack_signature = Some (''v0='' @ h ''8f742231b10e8888abcd99yyyzzz85a5''
                                           ''v0:abc:command=%2Fmood''),
      authorization = None, rawBody = ''command=%2Fmood''\<rparr>"

definition short_signature_request :: request where
  "short_signature_request =
     \<lparr>req_method = ''POST'', content_type = Some ''application/x-www-form-urlencoded'',
      x_slack_request_timestamp = Some ''1717803000'',
      x_slack_signature = Some ''v0=abc'',
      authorization = None, rawBody = ''command=%2Fmood''\<rparr>"

definition altered_event_request :: request where
  "altered_event_request =
     \<lparr>req_method = ''POST'', content_type = Some ''application/json'',
      x_slack_request_timestamp = Some ''1717803000'',
      x_slack_signature = Some (''v0='' @ hmac_hex example_runtime ''8f742231b10e8888abcd99yyyzzz85a5''
                                           (sigBasestring ''1717803000'' event_text)),
      authorization = None, rawBody = altered_event_text\<rparr>"

text \<open>The row of the scenario: score 3 with the comment \<open>tired\<close>.\<close>

definition example_row :: mood_entry where
  "example_row =
     \<lparr>slack_user_id = ''U0123456789'', slack_username = Some ''ana'',
      slack_display_name = Some ''Ana'', mood_score = 3, mood_emoji = emoji (MOODS ! 2),
      additional_context = Some ''tired'', slack_team_id = Some ''T0001''\<rparr>"

section \<open>The challenge handshake\<close>

text \<open>
  Claim C2. A POST request whose parsed body has type \<open>url_verification\<close> is answered
  with status 200 and the challenge of the body. The answer is the same whatever the
  timestamp header, the signature header, the signing secret and the clock are, and
  nothing is called: the signature is not looked at. (The router parses a body only
  for POST; any other method is answered 405 before the body is read.) The handler in
  front of the Bolt receiver answers the same way without handing the request on.
\<close>

theorem challenge_echoed_without_signature_check:
  assumes "req_method req = ''POST''"
    and "parse_body rt (case content_type req of None \<Rightarrow> [] | Some c \<Rightarrow> c) (rawBody req) = Some b"
    and "field body_type b = Some ''url_verification''"
  shows "handler rt env sl now_ms table
           (req\<lparr>x_slack_request_timestamp := ts, x_slack_signature := sg\<rparr>)
         = (Responded 200 (JsonChallenge (field challenge b)), [], table)
       \<and> events_handler receiver_app table (Some b) req
         = (Responded 200 (JsonChallenge (field challenge b)), [], table)"
  using assms by (simp add: handler_def events_handler_def)

theorem challenge_echoed_without_signature_check_witness:
  "req_method example_request = ''POST''
   \<and> handler example_runtime example_env example_slack 0 []
        (example_request\<lparr>x_slack_request_timestamp := None, x_slack_signature := Some ''bogus''\<rparr>)
      = (Responded 200
           (JsonChallenge (Some ''3eZbrw1aBm2rZgRNFdxV2595E9CY3gmdALWMmHkvFXO7tYXAYM8P'')), [], [])"
proof -
  have p: "parse_body example_runtime
             (case content_type example_request of None \<Rightarrow> [] | Some c \<Rightarrow> c)
             (rawBody example_request)
           = Some (BodyObject
                (no_fields\<lparr>body_type := Some ''url_verification'',
                            challenge := Some ''3eZbrw1aBm2rZgRNFdxV2595E9CY3gmdALWMmHkvFXO7tYXAYM8P''\<rparr>))"
    by (simp add: parse_body_def example_runtime_def example_request_def startsWith_def)
  have m: "req_method example_request = ''POST''" by (simp add: example_request_def)
  have f: "field body_type (BodyObject
                (no_fields\<lparr>body_type := Some ''url_verification'',
                            challenge := Some ''3eZbrw1aBm2rZgRNFdxV2595E9CY3gmdALWMmHkvFXO7tYXAYM8P''\<rparr>))
           = Some ''url_verification''"
    by (simp add: field_def)
  show ?thesis
    using m challenge_echoed_without_signature_check
            [OF m p f, where env = example_env and sl = example_slack and now_ms = 0
               and table = "[]" and ts = None and sg = "Some ''bogus''"]
    by (simp add: field_def)
qed

section \<open>The scheduler endpoint: authorization\<close>

text \<open>
  Both endpoints compare the authorization header with \<open>Bearer\<close>, a space and the
  value of \<open>CRON_SECRET\<close>, and answer 401 without a call when they differ. With the
  variable unset the text they compare with is \<open>Bearer undefined\<close>.
\<close>

lemma scheduler_rejects_other_headers:
  assumes "authorization req \<noteq> Some (bearer env)"
  shows "daily_checkin_handler env sl clk req = Some (Responded 401 (JsonError ''Unauthorized''), [])
       \<and> cron_handler env sl clk req = (Responded 401 (JsonError ''Unauthorized''), [])"
  using assms by (simp add: daily_checkin_handler_def cron_handler_def)

lemma bearer_of_configured_secret:
  "CRON_SECRET env = Some secret \<Longrightarrow> bearer env = ''Bearer '' @ secret"
  by (simp add: bearer_def)

text \<open>
  Claim C9 fails where no secret is configured. The header \<open>Bearer undefined\<close> is not
  \<open>Bearer\<close> followed by a configured secret, for there is none, yet both endpoints take
  it as authorized: with \<open>CRON_SECRET\<close> unset (and weekend skipping off) the one posts
  the prompt to the channel and to both users, the other to the member of the channel,
  and both answer 200.
\<close>

theorem unset_secret_authorizes_bearer_undefined:
  "cron_handler (example_env\<lparr>CRON_SECRET := None, SKIP_WEEKENDS := None\<rparr>) example_slack
      example_clock (example_request\<lparr>authorization := Some ''Bearer undefined''\<rparr>)
   = (Responded 200
        (JsonResults ''Daily check-in sent''
           [\<lparr>result_userId = ''channel:C0123456789'', success = True, result_error = None\<rparr>,
            \<lparr>result_userId = ''U0123456789'', success = True, result_error = None\<rparr>,
            \<lparr>result_userId = ''U9876543210'', success = True, result_error = None\<rparr>]),
      [PromptPost ''C0123456789'' (buildMoodMessage None None),
       PromptPost ''U0123456789'' (buildMoodMessage None None),
       PromptPost ''U9876543210'' (buildMoodMessage None None)])
   \<and> daily_checkin_handler (example_env\<lparr>CRON_SECRET := None, SKIP_WEEKENDS := None\<rparr>)
        example_slack example_clock (example_request\<lparr>authorization := Some ''Bearer undefined''\<rparr>)
   = Some (Responded 200
             (JsonResults ''Daily check-in sent to 1/1 members''
                [\<lparr>result_userId = ''U0123456789'', success = True, result_error = None\<rparr>]),
           [UsersInfo ''U0123456789'', PromptPost ''U0123456789'' (buildMoodMessage None None)])"
proof -
  let ?env = "example_env\<lparr>CRON_SECRET := None, SKIP_WEEKENDS := None\<rparr>"
  have b: "bearer ?env = ''Bearer undefined''" by (simp add: bearer_def)
  have ids: "userIds_of ?env = [''U0123456789'', ''U9876543210'']"
    by (simp add: userIds_of_def example_env_def)
  have ch: "MOOD_CHANNEL_ID ?env = Some ''C0123456789''" by (simp add: example_env_def)
  have tr: "trim ''U0123456789'' = ''U0123456789''" "trim ''U9876543210'' = ''U9876543210''"
    by (simp_all add: trim_def is_white_def)
  have sp: "\<And>c n. send_prompt example_slack c n
             = (PromptPost c (buildMoodMessage None None),
                \<lparr>result_userId = n, success = True, result_error = None\<rparr>)"
    by (simp add: send_prompt_def example_slack_def)
  have 1: "cron_handler ?env example_slack
      example_clock (example_request\<lparr>authorization := Some ''Bearer undefined''\<rparr>)
   = (Responded 200
        (JsonResults ''Daily check-in sent''
           [\<lparr>result_userId = ''channel:C0123456789'', success = True, result_error = None\<rparr>,
            \<lparr>result_userId = ''U0123456789'', success = True, result_error = None\<rparr>,
            \<lparr>result_userId = ''U9876543210'', success = True, result_error = None\<rparr>]),
      [PromptPost ''C0123456789'' (buildMoodMessage None None),
       PromptPost ''U0123456789'' (buildMoodMessage None None),
       PromptPost ''U9876543210'' (buildMoodMessage None None)])"
    by (simp add: cron_handler_def b ids ch tr sp truthy_def Let_def)
  have fm: "fetch_members example_slack ''C0123456789'' None [] = Some (Returned [''U0123456789''])"
    by (subst fetch_members.simps) (simp add: example_slack_def truthy_def)
  have h: "is_human example_slack ''U0123456789''"
    by (simp add: is_human_def example_slack_def example_user_def)
  have l: "lookup_calls example_slack ''U0123456789'' = [UsersInfo ''U0123456789'']"
    by (simp add: lookup_calls_def example_slack_def)
  have n: "show_nat (Suc 0) = ''1''" by code_simp
  have 2: "daily_checkin_handler ?env
        example_slack example_clock (example_request\<lparr>authorization := Some ''Bearer undefined''\<rparr>)
   = Some (Responded 200
             (JsonResults ''Daily check-in sent to 1/1 members''
                [\<lparr>result_userId = ''U0123456789'', success = True, result_error = None\<rparr>]),
           [UsersInfo ''U0123456789'', PromptPost ''U0123456789'' (buildMoodMessage None None)])"
    by (simp add: daily_checkin_handler_def b ch fm h l sp n)
  from 1 2 show ?thesis by simp
qed

section \<open>Rows written by the interaction handler\<close>

lemma saveMoodEntry_table:
  "snd (saveMoodEntry env sl table u md ctx t) =
     (case users_info sl u of
        Threw e \<Rightarrow> table
      | Returned user \<Rightarrow>
          snd (insert_entry (insert_fails sl) table
                 \<lparr>slack_user_id = u,
                  slack_username = (case user of None \<Rightarrow> None | Some x \<Rightarrow> user_name x),
                  slack_display_name = Some (displayName_of user),
                  mood_score = meta_score md, mood_emoji = meta_emoji md,
                  additional_context = ctx, slack_team_id = t\<rparr>))"
  by (simp add: saveMoodEntry_def Let_def split: api_result.splits prod.splits)

lemma handle_submit_table:
  "table_after (handleInteraction env sl table (submit md entered p)) =
     snd (saveMoodEntry env sl table (user_id p) md (js_or entered None) (team_id p))"
  by (simp add: handleInteraction_def submit_def modal_def table_after_def Let_def split: prod.splits)

lemma handle_dismiss_table:
  "table_after (handleInteraction env sl table (dismiss md entered p)) =
     snd (saveMoodEntry env sl table (user_id p) md None (team_id p))"
  by (simp add: handleInteraction_def dismiss_def modal_def table_after_def Let_def split: prod.splits)

lemma js_or_None: "js_or entered None = stored_comment entered"
  by (simp add: js_or_def truthy_def stored_comment_def split: option.splits)

lemma mood_facts:
  "m \<in> set MOODS \<Longrightarrow> 1 \<le> score m \<and> score m \<le> 5 \<and> startsWith (action_id m) ''mood_''"
  by (auto simp: MOODS_def startsWith_def)

lemma button_nth:
  "i < length MOODS \<Longrightarrow>
   buildMoodMessage src url ! i =
     \<lparr>button_text = emoji (MOODS ! i),
      button_value = \<lparr>data_score = score (MOODS ! i), data_emoji = emoji (MOODS ! i),
                      source_channel_id = src, data_response_url = url\<rparr>,
      button_action_id = action_id (MOODS ! i)\<rparr>"
  by (simp add: buildMoodMessage_def)

lemma press_opens_token:
  assumes "m \<in> set MOODS"
    and "button_action_id b = action_id m"
  shows "calls_of (handleInteraction env sl table (press b p)) =
           [ViewsOpen (trigger_id p)
              \<lparr>meta_score = data_score (button_value b),
               meta_emoji = data_emoji (button_value b),
               channel_id = js_or (source_channel_id (button_value b)) (payload_channel_id p),
               message_ts = payload_message_ts p,
               response_url = data_response_url (button_value b)\<rparr>]"
  using mood_facts [OF assms(1)] assms(2)
  by (simp add: handleInteraction_def press_def calls_of_def Let_def)

lemma moods_one_to_one:
  "distinct (map action_id MOODS) \<and> distinct (map defined_pair MOODS) \<and> length MOODS = 5
   \<and> distinct (map score MOODS) \<and> distinct (map emoji MOODS)"
  by (simp add: MOODS_def defined_pair_def)

lemma saveMoodEntry_added:
  "take (length table) (snd (saveMoodEntry env sl table u md ctx t)) = table
   \<and> (\<forall>r \<in> set (drop (length table) (snd (saveMoodEntry env sl table u md ctx t))).
         1 \<le> mood_score r \<and> mood_score r \<le> 5 \<and> pair_of r = (meta_score md, meta_emoji md))"
  by (simp add: saveMoodEntry_table insert_entry_def mood_score_check_def pair_of_def
      split: api_result.splits)

lemma handleInteraction_table:
  "table_after (handleInteraction env sl table q) = table
   \<or> (\<exists>v ctx. payload_view q = Some v
         \<and> table_after (handleInteraction env sl table q) =
             snd (saveMoodEntry env sl table (user_id q) (private_metadata v) ctx (team_id q)))"
  by (auto simp add: handleInteraction_def table_after_def Let_def
      split: list.splits option.splits prod.splits)

lemma added_rows:
  "take (length table) (table_after (handleInteraction env sl table q)) = table
   \<and> (\<forall>r \<in> set (drop (length table) (table_after (handleInteraction env sl table q))).
         1 \<le> mood_score r \<and> mood_score r \<le> 5
         \<and> (\<exists>v. payload_view q = Some v
                \<and> pair_of r = (meta_score (private_metadata v), meta_emoji (private_metadata v))))"
  using handleInteraction_table [of env sl table q]
proof (elim disjE exE conjE)
  assume "table_after (handleInteraction env sl table q) = table"
  then show ?thesis by simp
next
  fix v ctx
  assume v: "payload_view q = Some v"
    and "table_after (handleInteraction env sl table q) =
           snd (saveMoodEntry env sl table (user_id q) (private_metadata v) ctx (team_id q))"
  then show ?thesis
    using saveMoodEntry_added [of table env sl "user_id q" "private_metadata v" ctx "team_id q"]
    by simp
qed

text \<open>
  Claim C5. For every token, user and team, dismissing the form writes the row that
  submitting it would write, with the comment absent: the table after the dismissal is
  the table before it followed by the rows the submission adds (one, or none when the
  user lookup throws or the insert fails), each with its comment removed. The same
  holds for the two listeners under the Bolt receiver.
\<close>

theorem dismissed_row_is_submitted_row_without_comment:
  "table_after (handleInteraction env sl table (dismiss md entered p)) =
     table @ map without_comment
               (drop (length table) (table_after (handleInteraction env sl table (submit md entered p))))
   \<and> take (length table) (table_after (handleInteraction env sl table (submit md entered p))) = table
   \<and> snd (view_closed_listener env sl table (modal md entered) u t) =
     table @ map without_comment
               (drop (length table)
                  (snd (view_submission_listener env sl table (modal md entered) u t)))"
  apply (simp add: handle_submit_table handle_dismiss_table saveMoodEntry_table)
  apply (simp add: insert_entry_def mood_score_check_def without_comment_def modal_def
       view_closed_listener_def view_submission_listener_def Let_def
       split: api_result.splits prod.splits)
  done

theorem dismissed_row_is_submitted_row_without_comment_witness:
  "table_after (handleInteraction example_env example_slack []
                  (submit example_token (Some ''tired'') example_payload)) =
     [\<lparr>slack_user_id = ''U0123456789'', slack_username = Some ''ana'',
       slack_display_name = Some ''Ana'', mood_score = 3,
       mood_emoji = [CHR 0xF0, CHR 0x9F, CHR 0x98, CHR 0x90],
       additional_context = Some ''tired'', slack_team_id = Some ''T0001''\<rparr>]
   \<and> table_after (handleInteraction example_env example_slack []
                  (dismiss example_token (Some ''tired'') example_payload)) =
     [\<lparr>slack_user_id = ''U0123456789'', slack_username = Some ''ana'',
       slack_display_name = Some ''Ana'', mood_score = 3,
       mood_emoji = [CHR 0xF0, CHR 0x9F, CHR 0x98, CHR 0x90],
       additional_context = None, slack_team_id = Some ''T0001''\<rparr>]"
proof -
  have s: "table_after (handleInteraction example_env example_slack []
                  (submit example_token (Some ''tired'') example_payload)) =
     [\<lparr>slack_user_id = ''U0123456789'', slack_username = Some ''ana'',
       slack_display_name = Some ''Ana'', mood_score = 3,
       mood_emoji = [CHR 0xF0, CHR 0x9F, CHR 0x98, CHR 0x90],
       additional_context = Some ''tired'', slack_team_id = Some ''T0001''\<rparr>]"
    by (simp add: handle_submit_table saveMoodEntry_table js_or_None stored_comment_def
        example_slack_def example_user_def example_payload_def example_token_def
        displayName_of_def js_or_def truthy_def insert_entry_def mood_score_check_def MOODS_def)
  show ?thesis
    using s dismissed_row_is_submitted_row_without_comment
              [of example_env example_slack "[]" example_token "Some ''tired''" example_payload]
    by (simp add: without_comment_def)
qed

text \<open>
  Claim C4, as amended. The five moods have five different action ids and five
  different score and symbol pairs, and the button built for the \<open>i\<close>-th mood carries
  its action id. When the token opened by pressing that button comes back with a
  submission, and the user lookup and the insert succeed, exactly one row is added: its
  score and symbol are those of the mood, and its comment is the entered text as it
  was entered, absent only when the text is missing or empty. No text is trimmed.
\<close>

theorem submitted_row_matches_pressed_button:
  assumes "i < length MOODS"
    and "token_opened (calls_of (handleInteraction env0 sl0 table0
                                   (press (buildMoodMessage src url ! i) p0))) = Some md"
    and "users_info sl (user_id p) = Returned user"
    and "\<not> insert_fails sl"
  shows "button_action_id (buildMoodMessage src url ! i) = action_id (MOODS ! i)
       \<and> table_after (handleInteraction env sl table (submit md entered p)) =
           table @ [\<lparr>slack_user_id = user_id p,
                      slack_username = (case user of None \<Rightarrow> None | Some x \<Rightarrow> user_name x),
                      slack_display_name = Some (displayName_of user),
                      mood_score = score (MOODS ! i),
                      mood_emoji = emoji (MOODS ! i),
                      additional_context = stored_comment entered,
                      slack_team_id = team_id p\<rparr>]
       \<and> distinct (map action_id MOODS) \<and> distinct (map defined_pair MOODS) \<and> length MOODS = 5"
proof -
  let ?m = "MOODS ! i" and ?b = "buildMoodMessage src url ! i"
  have m: "?m \<in> set MOODS" using assms(1) by simp
  have b: "button_action_id ?b = action_id ?m"
    using assms(1) by (simp add: button_nth)
  have "md = \<lparr>meta_score = score ?m, meta_emoji = emoji ?m,
               channel_id = js_or src (payload_channel_id p0),
               message_ts = payload_message_ts p0, response_url = url\<rparr>"
    using assms(2) press_opens_token [OF m b, of env0 sl0 table0 p0] assms(1)
    by (simp add: button_nth)
  then have md: "meta_score md = score ?m" "meta_emoji md = emoji ?m" by simp_all
  have ok: "mood_score_check \<lparr>slack_user_id = user_id p,
                      slack_username = (case user of None \<Rightarrow> None | Some x \<Rightarrow> user_name x),
                      slack_display_name = Some (displayName_of user),
                      mood_score = score ?m,
                      mood_emoji = emoji ?m,
                      additional_context = stored_comment entered,
                      slack_team_id = team_id p\<rparr>"
    using mood_facts [OF m] by (simp add: mood_score_check_def)
  have "table_after (handleInteraction env sl table (submit md entered p)) =
           table @ [\<lparr>slack_user_id = user_id p,
                      slack_username = (case user of None \<Rightarrow> None | Some x \<Rightarrow> user_name x),
                      slack_display_name = Some (displayName_of user),
                      mood_score = score ?m,
                      mood_emoji = emoji ?m,
                      additional_context = stored_comment entered,
                      slack_team_id = team_id p\<rparr>]"
    using assms(3,4) ok
    by (simp add: handle_submit_table saveMoodEntry_table js_or_None md insert_entry_def)
  with b moods_one_to_one show ?thesis by simp
qed

theorem submitted_row_matches_pressed_button_witness:
  "token_opened (calls_of (handleInteraction example_env example_slack []
                   (press (buildMoodMessage None None ! 2) example_payload))) = Some example_token
   \<and> button_action_id (buildMoodMessage None None ! 2) = ''mood_3''
   \<and> table_after (handleInteraction example_env example_slack []
                     (submit example_token (Some ''tired'') example_payload)) =
         [\<lparr>slack_user_id = ''U0123456789'', slack_username = Some ''ana'',
           slack_display_name = Some ''Ana'', mood_score = 3,
           mood_emoji = [CHR 0xF0, CHR 0x9F, CHR 0x98, CHR 0x90],
           additional_context = Some ''tired'', slack_team_id = Some ''T0001''\<rparr>]"
proof -
  have i: "2 < length MOODS" by (simp add: MOODS_def)
  have t: "token_opened (calls_of (handleInteraction example_env example_slack []
                   (press (buildMoodMessage None None ! 2) example_payload))) = Some example_token"
    by (simp add: handleInteraction_def press_def calls_of_def Let_def buildMoodMessage_def
        MOODS_def startsWith_def example_payload_def example_slack_def example_token_def
        js_or_def truthy_def)
  have u: "users_info example_slack (user_id example_payload) = Returned (Some example_user)"
    by (simp add: example_slack_def)
  have f: "\<not> insert_fails example_slack" by (simp add: example_slack_def)
  show ?thesis
    using t submitted_row_matches_pressed_button [OF i t u f, of example_env "[]" "Some ''tired''"]
    by (simp add: MOODS_def example_payload_def example_user_def displayName_of_def js_or_def
        truthy_def stored_comment_def)
qed

text \<open>
  Claim C4 as stated fails: an entry of two spaces is empty once trimmed, so the claim
  has it stored as absent, but the row written has the two spaces as its comment.
\<close>

theorem blank_comment_is_stored_counterexample:
  "trim ''  '' = []
   \<and> map additional_context
        (table_after (handleInteraction example_env example_slack []
                        (submit example_token (Some ''  '') example_payload)))
      = [Some ''  '']"
  by (simp add: handle_submit_table saveMoodEntry_table js_or_None stored_comment_def
      trim_def is_white_def example_slack_def insert_entry_def
      mood_score_check_def example_token_def)

text \<open>
  Claim C8, as amended. Every row that the interaction handler adds, for any payload
  at all, has a score among 1, 2, 3, 4, 5 (a row with another score is refused by the
  constraint of the table); the moods carry exactly these five scores, each with one
  symbol; and when the token is the one opened by pressing a button that the bot
  built, every row added by the submission or the dismissal carries one of the five
  defined pairs. A returning token is not validated.
\<close>

theorem inserted_rows_within_enumeration:
  assumes "b \<in> set (buildMoodMessage src url)"
    and "token_opened (calls_of (handleInteraction env0 sl0 table0 (press b p0))) = Some md"
    and "q = submit md entered p \<or> q = dismiss md entered p"
  shows "(\<forall>r \<in> set (drop (length table) (table_after (handleInteraction env sl table q))).
            pair_of r \<in> set (map defined_pair MOODS))
       \<and> (\<forall>r \<in> set (drop (length table) (table_after (handleInteraction env sl table q'))).
            mood_score r \<in> {1, 2, 3, 4, 5})
       \<and> take (length table) (table_after (handleInteraction env sl table q')) = table
       \<and> map score MOODS = [1, 2, 3, 4, 5]
       \<and> (\<forall>m \<in> set MOODS. \<forall>m' \<in> set MOODS. score m = score m' \<longrightarrow> emoji m = emoji m')"
proof -
  from assms(1) obtain m where m: "m \<in> set MOODS"
    and b: "b = \<lparr>button_text = emoji m,
             button_value = \<lparr>data_score = score m, data_emoji = emoji m,
                             source_channel_id = src, data_response_url = url\<rparr>,
             button_action_id = action_id m\<rparr>"
    by (auto simp: buildMoodMessage_def)
  have ba: "button_action_id b = action_id m" using b by simp
  have md: "meta_score md = score m \<and> meta_emoji md = emoji m"
    using assms(2) press_opens_token [OF m ba, of env0 sl0 table0 p0] b by auto
  have v: "payload_view q = Some (modal md entered)"
    using assms(3) by (auto simp: submit_def dismiss_def)
  have 1: "\<forall>r \<in> set (drop (length table) (table_after (handleInteraction env sl table q))).
            pair_of r \<in> set (map defined_pair MOODS)"
  proof
    fix r assume "r \<in> set (drop (length table) (table_after (handleInteraction env sl table q)))"
    with added_rows [of table env sl q] v have "pair_of r = (meta_score md, meta_emoji md)"
      by (auto simp: modal_def)
    with md m show "pair_of r \<in> set (map defined_pair MOODS)"
      by (auto simp: defined_pair_def intro!: image_eqI [where x = m])
  qed
  have 2: "\<forall>r \<in> set (drop (length table) (table_after (handleInteraction env sl table q'))).
            mood_score r \<in> {1, 2, 3, 4, 5}"
  proof
    fix r assume "r \<in> set (drop (length table) (table_after (handleInteraction env sl table q')))"
    with added_rows [of table env sl q'] have "1 \<le> mood_score r \<and> mood_score r \<le> 5" by blast
    then show "mood_score r \<in> {1, 2, 3, 4, 5}" by auto
  qed
  have 3: "map score MOODS = [1, 2, 3, 4, 5]" by (simp add: MOODS_def)
  have 4: "\<forall>m \<in> set MOODS. \<forall>m' \<in> set MOODS. score m = score m' \<longrightarrow> emoji m = emoji m'"
    by (simp add: MOODS_def)
  from 1 2 3 4 added_rows [of table env sl q'] show ?thesis by blast
qed

theorem inserted_rows_within_enumeration_witness:
  "buildMoodMessage None None ! 2 \<in> set (buildMoodMessage None None)
   \<and> pair_of \<lparr>slack_user_id = ''U0123456789'', slack_username = Some ''ana'',
       slack_display_name = Some ''Ana'', mood_score = 3,
       mood_emoji = [CHR 0xF0, CHR 0x9F, CHR 0x98, CHR 0x90],
       additional_context = None, slack_team_id = Some ''T0001''\<rparr>
     \<in> set (map defined_pair MOODS)"
proof -
  have b: "buildMoodMessage None None ! 2 \<in> set (buildMoodMessage None None)"
    by (simp add: buildMoodMessage_def MOODS_def)
  have t: "token_opened (calls_of (handleInteraction example_env example_slack []
                   (press (buildMoodMessage None None ! 2) example_payload))) = Some example_token"
    by (simp add: handleInteraction_def press_def calls_of_def Let_def buildMoodMessage_def
        MOODS_def startsWith_def example_payload_def example_slack_def example_token_def
        js_or_def truthy_def)
  have d: "table_after (handleInteraction example_env example_slack []
                  (dismiss example_token None example_payload)) =
     [\<lparr>slack_user_id = ''U0123456789'', slack_username = Some ''ana'',
       slack_display_name = Some ''Ana'', mood_score = 3,
       mood_emoji = [CHR 0xF0, CHR 0x9F, CHR 0x98, CHR 0x90],
       additional_context = None, slack_team_id = Some ''T0001''\<rparr>]"
    by (simp add: handle_dismiss_table saveMoodEntry_table
        example_slack_def example_user_def example_payload_def example_token_def
        displayName_of_def js_or_def truthy_def insert_entry_def mood_score_check_def MOODS_def)
  show ?thesis
    using b d inserted_rows_within_enumeration
              [OF b t, where q = "dismiss example_token None example_payload"
                 and entered = None and p = example_payload and env = example_env
                 and sl = example_slack and table = "[]"]
    by simp
qed

text \<open>
  Claim C8 as stated fails: a submission whose token carries score 1 with the symbol of
  score 5 is written as it is, and that pair is none of the five.
\<close>

theorem mismatched_token_is_persisted_counterexample:
  "map pair_of
     (table_after (handleInteraction example_env example_slack []
                     (submit (example_token\<lparr>meta_score := 1, meta_emoji := emoji (MOODS ! 4)\<rparr>)
                        None example_payload)))
   = [(1, emoji (MOODS ! 4))]
   \<and> (1, emoji (MOODS ! 4)) \<notin> set (map defined_pair MOODS)"
  by (simp add: handle_submit_table saveMoodEntry_table js_or_None stored_comment_def
      example_slack_def insert_entry_def pair_of_def defined_pair_def
      mood_score_check_def example_token_def MOODS_def)

section \<open>Edit or fallback confirmation\<close>

lemma updateOriginal_calls:
  "filter is_fallback (fst (updateOriginal sl md n)) = []
   \<and> length (filter is_edit (fst (updateOriginal sl md n))) =
       (if truthy (channel_id md) \<and> truthy (message_ts md) then 1 else 0)
   \<and> snd (updateOriginal sl md n) =
       (truthy (channel_id md) \<and> truthy (message_ts md) \<and> \<not> chat_update_throws sl)"
  by (simp add: updateOriginal_def truthy_def Let_def split: option.splits)

lemma sendConfirmation_eq:
  "sendConfirmation sl md u txt =
     (if truthy (response_url md)
      then ResponseUrlPost (the (response_url md)) txt # (if fetch_throws sl then [ConsoleLog] else [])
      else if truthy (channel_id md)
      then (if startsWith (the (channel_id md)) ''D''
            then ConversationPost (the (channel_id md)) txt
            else EphemeralPost (the (channel_id md)) u txt)
           # (if confirmation_throws sl then [ConsoleLog] else [])
      else [])"
  by (cases "response_url md"; cases "channel_id md")
     (simp_all add: sendConfirmation_def truthy_def)

lemma sendConfirmation_calls:
  "filter is_edit (sendConfirmation sl md u txt) = []
   \<and> filter is_fallback (sendConfirmation sl md u txt) =
       (if truthy (response_url md) then [ResponseUrlPost (the (response_url md)) txt]
        else if truthy (channel_id md) then
          (if startsWith (the (channel_id md)) ''D''
           then [ConversationPost (the (channel_id md)) txt]
           else [EphemeralPost (the (channel_id md)) u txt])
        else [])"
  by (simp only: sendConfirmation_eq) simp

lemma postToMoodChannel_calls:
  "filter is_edit (postToMoodChannel env sl txt) = []
   \<and> filter is_fallback (postToMoodChannel env sl txt) = []"
  by (simp add: postToMoodChannel_def split: option.splits)

lemma calls_after_user_lookup:
  assumes "users_info sl u = Returned user"
  shows "filter is_fallback (fst (saveMoodEntry env sl table u md ctx t)) =
           (if truthy (channel_id md) \<and> truthy (message_ts md) \<and> \<not> chat_update_throws sl
            then []
            else if truthy (response_url md)
            then [ResponseUrlPost (the (response_url md))
                    (confirmationText (displayName_of user) md ctx)]
            else if truthy (channel_id md) then
              (if startsWith (the (channel_id md)) ''D''
               then [ConversationPost (the (channel_id md))
                       (confirmationText (displayName_of user) md ctx)]
               else [EphemeralPost (the (channel_id md)) u
                       (confirmationText (displayName_of user) md ctx)])
            else [])
       \<and> length (filter is_edit (fst (saveMoodEntry env sl table u md ctx t))) =
           (if truthy (channel_id md) \<and> truthy (message_ts md) then 1 else 0)"
proof -
  obtain cs ok where uo: "updateOriginal sl md (displayName_of user) = (cs, ok)"
    by (cases "updateOriginal sl md (displayName_of user)")
  from updateOriginal_calls [of sl md "displayName_of user"] uo
  have cs: "filter is_fallback cs = []"
    "length (filter is_edit cs) = (if truthy (channel_id md) \<and> truthy (message_ts md) then 1 else 0)"
    "\<not> (truthy (channel_id md) \<and> truthy (message_ts md)) \<Longrightarrow> filter is_edit cs = []"
    "ok = (truthy (channel_id md) \<and> truthy (message_ts md) \<and> \<not> chat_update_throws sl)"
    by (simp_all split: if_splits)
  show ?thesis
    using assms uo cs
      sendConfirmation_calls [of sl md u "confirmationText (displayName_of user) md ctx"]
      postToMoodChannel_calls
    by (simp add: saveMoodEntry_def Let_def)
qed

text \<open>
  Claim C7, as amended. Once the user lookup has returned, the sequence goes on to the
  notifications. If the token carries both a conversation id and a message timestamp
  and the edit does not throw, there is one edit and no fallback confirmation.
  Otherwise, if the token carries a callback address, the one fallback is the post to
  it; else, if it carries a conversation id, the one fallback is a post into that
  conversation when its id starts with \<open>D\<close> and an ephemeral reply to the submitter in
  it when not; and if it carries neither, no fallback confirmation is sent at all.
\<close>

theorem one_edit_or_fallback_by_priority:
  assumes "users_info sl u = Returned user"
  shows "filter is_fallback (fst (saveMoodEntry env sl table u md ctx t)) =
           (if truthy (channel_id md) \<and> truthy (message_ts md) \<and> \<not> chat_update_throws sl
            then []
            else if truthy (response_url md)
            then [ResponseUrlPost (the (response_url md))
                    (confirmationText (displayName_of user) md ctx)]
            else if truthy (channel_id md) then
              (if startsWith (the (channel_id md)) ''D''
               then [ConversationPost (the (channel_id md))
                       (confirmationText (displayName_of user) md ctx)]
               else [EphemeralPost (the (channel_id md)) u
                       (confirmationText (displayName_of user) md ctx)])
            else [])
       \<and> length (filter is_edit (fst (saveMoodEntry env sl table u md ctx t))) =
           (if truthy (channel_id md) \<and> truthy (message_ts md) then 1 else 0)"
  using assms by (rule calls_after_user_lookup)

theorem one_edit_or_fallback_by_priority_witness:
  "users_info example_slack ''U0123456789'' = Returned (Some example_user)
   \<and> filter is_fallback
        (fst (saveMoodEntry example_env example_slack [] ''U0123456789'' example_token
                (Some ''tired'') None)) = []
   \<and> length (filter is_edit
        (fst (saveMoodEntry example_env example_slack [] ''U0123456789'' example_token
                (Some ''tired'') None))) = 1
   \<and> filter is_fallback
        (fst (saveMoodEntry example_env (example_slack\<lparr>chat_update_throws := True\<rparr>) []
                ''U0123456789'' example_token (Some ''tired'') None))
      = [EphemeralPost ''C1'' ''U0123456789''
           (confirmationText ''Ana'' example_token (Some ''tired''))]"
proof -
  have u: "users_info example_slack ''U0123456789'' = Returned (Some example_user)"
    by (simp add: example_slack_def)
  have u': "users_info (example_slack\<lparr>chat_update_throws := True\<rparr>) ''U0123456789''
              = Returned (Some example_user)"
    by (simp add: example_slack_def)
  have n: "displayName_of (Some example_user) = ''Ana''"
    by (simp add: displayName_of_def example_user_def js_or_def truthy_def)
  show ?thesis
    using u n
      one_edit_or_fallback_by_priority
        [OF u, of example_env "[]" example_token "Some ''tired''" None]
      one_edit_or_fallback_by_priority
        [OF u', of example_env "[]" example_token "Some ''tired''" None]
    by (simp add: example_token_def example_slack_def truthy_def startsWith_def)
qed

text \<open>
  Claim C7 as stated fails: with a token that carries no conversation id and no callback
  address, the row is written, nothing is edited and no fallback confirmation is sent,
  where the claim has exactly one.
\<close>

theorem no_conversation_no_fallback_counterexample:
  "length (snd (saveMoodEntry example_env example_slack [] ''U0123456789'' bare_token None None)) = 1
   \<and> filter is_edit
        (fst (saveMoodEntry example_env example_slack [] ''U0123456789'' bare_token None None)) = []
   \<and> filter is_fallback
        (fst (saveMoodEntry example_env example_slack [] ''U0123456789'' bare_token None None)) = []"
proof -
  have u: "users_info example_slack ''U0123456789'' = Returned (Some example_user)"
    by (simp add: example_slack_def)
  have 1: "length (snd (saveMoodEntry example_env example_slack [] ''U0123456789'' bare_token None None)) = 1"
    by (simp add: saveMoodEntry_table u insert_entry_def mood_score_check_def bare_token_def
        example_slack_def)
  have 2: "filter is_fallback
        (fst (saveMoodEntry example_env example_slack [] ''U0123456789'' bare_token None None)) = []
     \<and> length (filter is_edit
        (fst (saveMoodEntry example_env example_slack [] ''U0123456789'' bare_token None None))) = 0"
    using calls_after_user_lookup [OF u, of example_env "[]" bare_token None None]
    by (simp add: bare_token_def truthy_def)
  from 1 2 show ?thesis by simp
qed

section \<open>The request signature\<close>

lemma parseInt_abc: "parseInt ''abc'' = None"
  by (simp add: parseInt_def is_white_def startsWith_def digit_of_def Let_def)

lemma parseInt_example: "parseInt ''1717803000'' = Some 1717803000"
  by (simp add: parseInt_def is_white_def startsWith_def digit_of_def digits_value_def Let_def)

lemma includes_form:
  "includes_str ''application/x-www-form-urlencoded'' ''application/x-www-form-urlencoded''"
  "\<not> includes_str ''application/x-www-form-urlencoded'' ''application/json''"
  by (simp_all add: startsWith_def)

text \<open>
  The encoding of \<open>Buffer.from\<close> is injective, so two buffers of equal length are equal
  exactly when the strings are.
\<close>

lemma utf8_unit_append_inject:
  "utf8_unit x @ r = utf8_unit y @ r' \<Longrightarrow> x = y \<and> r = r'"
proof -
  assume a: "utf8_unit x @ r = utf8_unit y @ r'"
  have inj: "(of_char x :: nat) = of_char y \<Longrightarrow> x = y" by simp
  have lx: "(of_char x :: nat) < 256" and ly: "(of_char y :: nat) < 256" by simp_all
  define n where "n = (of_char x :: nat)"
  define m where "m = (of_char y :: nat)"
  have b: "(if n < 128 then [n] else [192 + n div 64, 128 + n mod 64]) @ r
         = (if m < 128 then [m] else [192 + m div 64, 128 + m mod 64]) @ r'"
    using a unfolding utf8_unit_def Let_def n_def m_def .
  have nm: "n < 256" "m < 256" using lx ly by (simp_all add: n_def m_def)
  have "n = m \<and> r = r'"
  proof (cases "n < 128")
    case True
    note n = this
    show ?thesis
    proof (cases "m < 128")
      case True
      with n b show ?thesis by simp
    next
      case False
      with n b show ?thesis by simp
    qed
  next
    case False
    note n = this
    show ?thesis
    proof (cases "m < 128")
      case True
      with n b show ?thesis by simp
    next
      case False
      with n b have "n div 64 = m div 64" "n mod 64 = m mod 64" "r = r'" by simp_all
      moreover have "n = 64 * (n div 64) + n mod 64" "m = 64 * (m div 64) + m mod 64" by simp_all
      ultimately show ?thesis by metis
    qed
  qed
  with inj show ?thesis by (simp add: n_def m_def)
qed

lemma Buffer_from_inject: "Buffer_from a = Buffer_from b \<Longrightarrow> a = b"
proof (induction a arbitrary: b)
  case Nil
  then show ?case
    by (cases b) (auto simp: Buffer_from_def utf8_unit_def Let_def split: if_splits)
next
  case (Cons x xs)
  show ?case
  proof (cases b)
    case Nil
    with Cons.prems show ?thesis
      by (auto simp: Buffer_from_def utf8_unit_def Let_def split: if_splits)
  next
    case (Cons y ys)
    with Cons.prems have "utf8_unit x @ Buffer_from xs = utf8_unit y @ Buffer_from ys"
      by (simp add: Buffer_from_def)
    then have "x = y \<and> Buffer_from xs = Buffer_from ys" by (rule utf8_unit_append_inject)
    with Cons.IH Cons show ?thesis by simp
  qed
qed

text \<open>
  What the verification accepts: both headers present and non-empty, a key configured,
  the signature header equal to \<open>v0=\<close> followed by the keyed hash of
  \<open>v0:timestamp:body\<close>, and a timestamp that, if \<open>parseInt\<close> reads a number from it,
  is within 300 seconds of the clock. A timestamp from which no number is read passes.
\<close>

lemma verifySlackSignature_accepts_iff:
  "verifySlackSignature h env now_ms req body = Inr True \<longleftrightarrow>
     (\<exists>ts secret.
        x_slack_request_timestamp req = Some ts \<and> ts \<noteq> []
        \<and> (\<forall>t. parseInt ts = Some t \<longrightarrow> \<bar>now_ms div 1000 - t\<bar> \<le> 300)
        \<and> SLACK_SIGNING_SECRET env = Some secret
        \<and> x_slack_signature req = Some (''v0='' @ h secret (sigBasestring ts body)))"
proof (cases "x_slack_request_timestamp req")
  case None
  then show ?thesis by (simp add: verifySlackSignature_def)
next
  case ts: (Some ts)
  show ?thesis
  proof (cases "x_slack_signature req")
    case None
    with ts show ?thesis by (simp add: verifySlackSignature_def)
  next
    case sg: (Some sg)
    show ?thesis
    proof (cases "ts = [] \<or> sg = []")
      case True
      with ts sg show ?thesis by (auto simp: verifySlackSignature_def)
    next
      case ne: False
      show ?thesis
      proof (cases "\<exists>t. parseInt ts = Some t \<and> \<bar>now_ms div 1000 - t\<bar> > 300")
        case True
        then obtain t where "parseInt ts = Some t" "\<bar>now_ms div 1000 - t\<bar> > 300" by blast
        with ts sg ne show ?thesis by (auto simp: verifySlackSignature_def Let_def)
      next
        case fresh: False
        then have f: "(case parseInt ts of None \<Rightarrow> False | Some t \<Rightarrow> \<bar>now_ms div 1000 - t\<bar> > 300) = False"
          by (cases "parseInt ts") auto
        have f': "\<forall>t. parseInt ts = Some t \<longrightarrow> \<bar>now_ms div 1000 - t\<bar> \<le> 300"
          using fresh by auto
        show ?thesis
        proof (cases "SLACK_SIGNING_SECRET env")
          case None
          with ts sg ne f show ?thesis by (simp add: verifySlackSignature_def Let_def)
        next
          case (Some secret)
          have "verifySlackSignature h env now_ms req body =
                  timingSafeEqual (Buffer_from (''v0='' @ h secret (sigBasestring ts body)))
                                  (Buffer_from sg)"
            using ts sg ne f Some by (simp add: verifySlackSignature_def Let_def)
          moreover have "timingSafeEqual (Buffer_from (''v0='' @ h secret (sigBasestring ts body)))
                                  (Buffer_from sg) = Inr True
                         \<longleftrightarrow> sg = ''v0='' @ h secret (sigBasestring ts body)"
            using Buffer_from_inject [of "''v0='' @ h secret (sigBasestring ts body)" sg]
            by (auto simp: timingSafeEqual_def)
          ultimately show ?thesis using ts sg ne f' Some by auto
        qed
      qed
    qed
  qed
qed

text \<open>
  Two rejections of the router, for a POST request that parses and is not a challenge:
  a timestamp that reads as a number more than 300 seconds from the clock, whatever the
  signature; and a body other than the one that was signed, when the two digests have
  the same length and differ. Both answer 401 and do nothing else.
\<close>

lemma stale_timestamp_is_rejected:
  assumes "x_slack_request_timestamp req = Some ts"
    and "parseInt ts = Some t" and "\<bar>now_ms div 1000 - t\<bar> > 300"
    and "req_method req = ''POST''"
    and "parse_body rt (case content_type req of None \<Rightarrow> [] | Some c \<Rightarrow> c) (rawBody req) = Some b"
    and "field body_type b \<noteq> Some ''url_verification''"
  shows "handler rt env sl now_ms table req
           = (Responded 401 (JsonError ''Invalid signature''), [ConsoleLog], table)"
proof -
  have "verifySlackSignature (hmac_hex rt) env now_ms req (rawBody req) = Inr False"
    using assms(1-3) by (simp add: verifySlackSignature_def Let_def split: option.splits)
  with assms(4-6) show ?thesis by (simp add: handler_def)
qed

lemma altered_body_is_rejected:
  assumes "x_slack_request_timestamp req = Some ts" and "ts \<noteq> []"
    and "SLACK_SIGNING_SECRET env = Some secret"
    and "x_slack_signature req = Some (''v0='' @ hmac_hex rt secret (sigBasestring ts signed_body))"
    and "length (Buffer_from (hmac_hex rt secret (sigBasestring ts (rawBody req))))
           = length (Buffer_from (hmac_hex rt secret (sigBasestring ts signed_body)))"
    and "hmac_hex rt secret (sigBasestring ts (rawBody req))
           \<noteq> hmac_hex rt secret (sigBasestring ts signed_body)"
    and "req_method req = ''POST''"
    and "parse_body rt (case content_type req of None \<Rightarrow> [] | Some c \<Rightarrow> c) (rawBody req) = Some b"
    and "field body_type b \<noteq> Some ''url_verification''"
  shows "handler rt env sl now_ms table req
           = (Responded 401 (JsonError ''Invalid signature''), [ConsoleLog], table)"
proof -
  let ?mine = "''v0='' @ hmac_hex rt secret (sigBasestring ts (rawBody req))"
  let ?sent = "''v0='' @ hmac_hex rt secret (sigBasestring ts signed_body)"
  have len: "length (Buffer_from ?mine) = length (Buffer_from ?sent)"
    using assms(5) by (simp add: Buffer_from_def)
  have ne: "Buffer_from ?mine \<noteq> Buffer_from ?sent"
    using assms(6) Buffer_from_inject [of ?mine ?sent] by auto
  have t: "timingSafeEqual (Buffer_from ?mine) (Buffer_from ?sent) = Inr False"
    using len ne by (simp add: timingSafeEqual_def)
  have "verifySlackSignature (hmac_hex rt) env now_ms req (rawBody req) = Inr False"
  proof (cases "case parseInt ts of None \<Rightarrow> False | Some t \<Rightarrow> \<bar>now_ms div 1000 - t\<bar> > 300")
    case True
    with assms(1-4) show ?thesis by (simp add: verifySlackSignature_def Let_def)
  next
    case False
    with assms(1-4) t show ?thesis by (simp add: verifySlackSignature_def Let_def)
  qed
  with assms(7-9) show ?thesis by (simp add: handler_def)
qed

text \<open>
  A timestamp that is not a number passes the check of its age: \<open>parseInt\<close> yields
  \<open>NaN\<close> and the comparison of the distance with 300 is false. With the signature
  that belongs to that stamp the verification returns true whatever the clock says, for
  any keyed hash \<open>h\<close>, and the router goes on to dispatch; the slash command stamped
  \<open>abc\<close> is answered with the mood prompt at any time. Such a signature takes the
  signing secret to make.
\<close>

lemma non_numeric_timestamp_passes_verification:
  assumes "x_slack_request_timestamp req = Some ts" and "ts \<noteq> []" and "parseInt ts = None"
    and "SLACK_SIGNING_SECRET env = Some secret"
    and "x_slack_signature req = Some (''v0='' @ h secret (sigBasestring ts body))"
  shows "verifySlackSignature h env now_ms req body = Inr True"
  using assms by (simp add: verifySlackSignature_def timingSafeEqual_def Let_def)

lemma unstamped_command_is_answered_at_any_time:
  "handler (example_runtime\<lparr>hmac_hex := h\<rparr>) example_env example_slack now_ms []
     (unstamped_request h)
   = (Responded 200 (JsonBlocks (buildMoodMessage None None)), [], [])"
proof -
  have v: "verifySlackSignature h example_env now_ms (unstamped_request h) ''command=%2Fmood''
             = Inr True"
    by (rule non_numeric_timestamp_passes_verification [where ts = "''abc''"])
       (simp_all add: unstamped_request_def parseInt_abc example_env_def sigBasestring_def)
  have p: "parse_body (example_runtime\<lparr>hmac_hex := h\<rparr>) ''application/x-www-form-urlencoded''
             ''command=%2Fmood''
           = Some (BodyObject (no_fields\<lparr>command := Some ''/mood''\<rparr>))"
    by (simp add: parse_body_def includes_form example_runtime_def del: includes_str.simps)
  show ?thesis
    using v p
    by (simp add: handler_def unstamped_request_def field_def dispatch_def truthy_def
        handleSlashCommand_def no_fields_def)
qed

text \<open>
  Claim C1 fails on a body that is announced as JSON and is altered into a text that is
  no JSON. The body is parsed before the signature is verified, and nothing catches the
  \<open>SyntaxError\<close> of \<open>JSON.parse\<close>: whatever the timestamp and the signature are, the
  router ends with that exception. It makes no call and writes no row, but it does not
  answer 401.
\<close>

theorem altered_json_body_raises_instead_of_401:
  assumes "req_method req = ''POST''"
    and "content_type req = Some ct" and "includes_str ct ''application/json''"
    and "JSON_parse rt (rawBody req) = None"
  shows "handler rt env sl now_ms table req = (Raised SyntaxError, [], table)"
  using assms by (simp add: handler_def parse_body_def)

theorem altered_json_body_raises_instead_of_401_witness:
  "length altered_event_text = length event_text
   \<and> butlast altered_event_text = butlast event_text
   \<and> JSON_parse example_runtime event_text
        = Some (BodyObject (no_fields\<lparr>body_type := Some ''event_callback''\<rparr>))
   \<and> JSON_parse example_runtime altered_event_text = None
   \<and> handler example_runtime example_env example_slack 1717803000000 [] altered_event_request
        = (Raised SyntaxError, [], [])"
proof -
  have t: "length altered_event_text = length event_text"
    "butlast altered_event_text = butlast event_text"
    by (simp_all add: altered_event_text_def event_text_def quoted_def)
  have e: "JSON_parse example_runtime event_text
        = Some (BodyObject (no_fields\<lparr>body_type := Some ''event_callback''\<rparr>))"
    by (simp add: example_runtime_def event_text_def challenge_text_def quoted_def)
  have a: "JSON_parse example_runtime (rawBody altered_event_request) = None"
    by (simp add: example_runtime_def altered_event_request_def altered_event_text_def
        event_text_def challenge_text_def quoted_def)
  have m: "req_method altered_event_request = ''POST''"
    and c: "content_type altered_event_request = Some ''application/json''"
    by (simp_all add: altered_event_request_def)
  have i: "includes_str ''application/json'' ''application/json''"
    by (simp add: startsWith_def)
  show ?thesis
    using t e a
      altered_json_body_raises_instead_of_401
        [OF m c i a, of example_env example_slack 1717803000000 "[]"]
    by (simp add: altered_event_request_def)
qed

text \<open>
  Claim C3 fails: verification is not total. With both headers present, a fresh
  timestamp and a key, a signature header whose encoded length differs from that of the
  computed signature makes \<open>timingSafeEqual\<close> throw a \<open>RangeError\<close>; the function
  returns no Boolean, and the router ends with that exception instead of answering 401.
\<close>

theorem signature_of_other_length_throws:
  assumes "x_slack_request_timestamp req = Some ts" and "ts \<noteq> []"
    and "x_slack_signature req = Some sg" and "sg \<noteq> []"
    and "parseInt ts = Some t" and "\<bar>now_ms div 1000 - t\<bar> \<le> 300"
    and "SLACK_SIGNING_SECRET env = Some secret"
    and "length (Buffer_from sg)
           \<noteq> length (Buffer_from (''v0='' @ hmac_hex rt secret (sigBasestring ts (rawBody req))))"
    and "req_method req = ''POST''"
    and "parse_body rt (case content_type req of None \<Rightarrow> [] | Some c \<Rightarrow> c) (rawBody req) = Some b"
    and "field body_type b \<noteq> Some ''url_verification''"
  shows "verifySlackSignature (hmac_hex rt) env now_ms req (rawBody req) = Inl RangeError
       \<and> handler rt env sl now_ms table req = (Raised RangeError, [], table)"
proof -
  have v: "verifySlackSignature (hmac_hex rt) env now_ms req (rawBody req) = Inl RangeError"
    using assms(1-8) by (simp add: verifySlackSignature_def timingSafeEqual_def Let_def)
  with assms(9-11) show ?thesis by (simp add: handler_def)
qed

theorem signature_of_other_length_throws_witness:
  "length (Buffer_from ''v0=abc'') = 6
   \<and> length (Buffer_from (''v0='' @ hmac_hex example_runtime ''8f742231b10e8888abcd99yyyzzz85a5''
                (sigBasestring ''1717803000'' ''command=%2Fmood''))) = 67
   \<and> handler example_runtime example_env example_slack 1717803000000 [] short_signature_request
       = (Raised RangeError, [], [])"
proof -
  have l1: "length (Buffer_from ''v0=abc'') = 6"
    by (simp add: Buffer_from_def utf8_unit_def)
  have l2: "length (Buffer_from (''v0='' @ hmac_hex example_runtime ''8f742231b10e8888abcd99yyyzzz85a5''
                (sigBasestring ''1717803000'' ''command=%2Fmood''))) = 67"
    by (simp add: Buffer_from_def utf8_unit_def example_runtime_def length_concat o_def sum_list_replicate)
  have p: "parse_body example_runtime
              (case content_type short_signature_request of None \<Rightarrow> [] | Some c \<Rightarrow> c)
              (rawBody short_signature_request)
           = Some (BodyObject (no_fields\<lparr>command := Some ''/mood''\<rparr>))"
    by (simp add: parse_body_def includes_form example_runtime_def short_signature_request_def
        del: includes_str.simps)
  have ne: "length (Buffer_from ''v0=abc'')
           \<noteq> length (Buffer_from (''v0='' @ hmac_hex example_runtime ''8f742231b10e8888abcd99yyyzzz85a5''
                  (sigBasestring ''1717803000'' (rawBody short_signature_request))))"
    using l1 l2 by (simp add: short_signature_request_def)
  show ?thesis
    using l1 l2
      signature_of_other_length_throws
        [where req = short_signature_request and ts = "''1717803000''" and sg = "''v0=abc''"
           and t = 1717803000 and now_ms = 1717803000000 and env = example_env
           and secret = "''8f742231b10e8888abcd99yyyzzz85a5''" and rt = example_runtime
           and sl = example_slack and table = "[]", OF _ _ _ _ parseInt_example _ _ ne _ p]
    by (simp add: short_signature_request_def example_env_def field_def no_fields_def)
qed


section \<open>A failed insert\<close>

lemma example_displayName: "displayName_of (Some example_user) = ''Ana''"
  by (simp add: displayName_of_def example_user_def js_or_def truthy_def)

text \<open>
  The submission listener under the Bolt receiver stops after a failed insert: it logs
  the error and makes no further call.
\<close>

lemma submission_listener_stops_after_failed_insert:
  assumes "users_info sl u = Returned user"
    and "insert_fails sl"
  shows "\<exists>row. view_submission_listener env sl table v u t = ([UsersInfo u, Insert row, ConsoleError], table)"
  using assms
  by (simp add: view_submission_listener_def insert_entry_def Let_def)

text \<open>
  Claim C6 fails on the other paths. In \<open>saveMoodEntry\<close> the result of the insert is
  not looked at: with an insert that fails, nothing is logged, the table is unchanged,
  and the original message is edited, the submitter gets the direct message that the
  mood has been logged, and the mood channel gets the announcement. The dismissal
  listener under the Bolt receiver logs the error and goes on in the same way.
\<close>

theorem failed_insert_is_followed_by_notifications:
  "saveMoodEntry example_env (example_slack\<lparr>insert_fails := True\<rparr>) [] ''U0123456789''
      example_token (Some ''tired'') (Some ''T0001'')
   = ([UsersInfo ''U0123456789'',
       Insert example_row,
       ChatUpdate ''C1'' ''T1''
         (check_mark @ '' *Ana* is feeling '' @ emoji (MOODS ! 2) @ '' today.'')
         (''Mood recorded: Ana - '' @ emoji (MOODS ! 2)),
       DirectMessage ''U0123456789'' (confirmationText ''Ana'' example_token (Some ''tired'')),
       MoodChannelPost ''C0123456789''
         (''*Ana* is feeling '' @ emoji (MOODS ! 2) @ '' today'' @ context_suffix (Some ''tired''))],
      [])
   \<and> view_closed_listener example_env (example_slack\<lparr>insert_fails := True\<rparr>) []
        (modal example_token None) ''U0123456789'' (Some ''T0001'')
   = ([UsersInfo ''U0123456789'',
       Insert (example_row\<lparr>additional_context := None\<rparr>),
       ConsoleError,
       ChatUpdate ''C1'' ''T1''
         (check_mark @ '' *Ana* is feeling '' @ emoji (MOODS ! 2) @ '' today.'')
         (''Mood recorded: Ana - '' @ emoji (MOODS ! 2)),
       MoodChannelPost ''C0123456789'' (''*Ana* is feeling '' @ emoji (MOODS ! 2) @ '' today'')],
      [])"
proof -
  have u: "users_info example_slack ''U0123456789'' = Returned (Some example_user)"
    by (simp add: example_slack_def)
  have up: "updateOriginal (example_slack\<lparr>insert_fails := True\<rparr>) example_token ''Ana''
    = ([ChatUpdate ''C1'' ''T1''
         (check_mark @ '' *Ana* is feeling '' @ emoji (MOODS ! 2) @ '' today.'')
         (''Mood recorded: Ana - '' @ emoji (MOODS ! 2))], True)"
    by (simp add: updateOriginal_def example_token_def example_slack_def)
  have mc: "\<And>txt. postToMoodChannel example_env (example_slack\<lparr>insert_fails := True\<rparr>) txt
              = [MoodChannelPost ''C0123456789'' txt]"
    by (simp add: postToMoodChannel_def example_env_def example_slack_def)
  have ins: "\<And>r. insert_entry True [] r = (True, [])"
    by (simp add: insert_entry_def)
  have dm: "\<not> dm_confirmation_throws example_slack"
    by (simp add: example_slack_def)
  have un: "user_name example_user = Some ''ana''" by (simp add: example_user_def)
  have md: "meta_score example_token = 3" "meta_emoji example_token = emoji (MOODS ! 2)"
    by (simp_all add: example_token_def)
  have 1: "saveMoodEntry example_env (example_slack\<lparr>insert_fails := True\<rparr>) [] ''U0123456789''
      example_token (Some ''tired'') (Some ''T0001'')
   = ([UsersInfo ''U0123456789'',
       Insert example_row,
       ChatUpdate ''C1'' ''T1''
         (check_mark @ '' *Ana* is feeling '' @ emoji (MOODS ! 2) @ '' today.'')
         (''Mood recorded: Ana - '' @ emoji (MOODS ! 2)),
       DirectMessage ''U0123456789'' (confirmationText ''Ana'' example_token (Some ''tired'')),
       MoodChannelPost ''C0123456789''
         (''*Ana* is feeling '' @ emoji (MOODS ! 2) @ '' today'' @ context_suffix (Some ''tired''))],
      [])"
    by (simp add: saveMoodEntry_def u example_displayName up mc ins dm un md example_row_def Let_def)
  have sd: "stored_display_name (Some example_user) = Some ''Ana''"
    by (simp add: stored_display_name_def example_user_def js_or_def truthy_def)
  have 2: "view_closed_listener example_env (example_slack\<lparr>insert_fails := True\<rparr>) []
        (modal example_token None) ''U0123456789'' (Some ''T0001'')
   = ([UsersInfo ''U0123456789'',
       Insert (example_row\<lparr>additional_context := None\<rparr>),
       ConsoleError,
       ChatUpdate ''C1'' ''T1''
         (check_mark @ '' *Ana* is feeling '' @ emoji (MOODS ! 2) @ '' today.'')
         (''Mood recorded: Ana - '' @ emoji (MOODS ! 2)),
       MoodChannelPost ''C0123456789'' (''*Ana* is feeling '' @ emoji (MOODS ! 2) @ '' today'')],
      [])"
    by (simp add: view_closed_listener_def modal_def u example_displayName up mc ins un md sd
        example_row_def Let_def)
  from 1 2 show ?thesis by simp
qed

section \<open>The weekend\<close>

text \<open>
  With weekend skipping enabled and an authorized request, both endpoints answer
  \<open>Skipped - weekend\<close> and post nothing when it is Saturday or Sunday in London. The
  script skips when it is Saturday or Sunday in the zone of its host.
\<close>

lemma endpoints_skip_on_a_london_weekend:
  assumes "authorization req = Some (bearer env)"
    and "SKIP_WEEKENDS env = Some ''true''"
    and "ukDate clk = ''Sat'' \<or> ukDate clk = ''Sun''"
  shows "daily_checkin_handler env sl clk req = Some (Responded 200 (JsonMessage ''Skipped - weekend''), [])
       \<and> cron_handler env sl clk req = (Responded 200 (JsonMessage ''Skipped - weekend''), [])"
  using assms by (auto simp add: daily_checkin_handler_def cron_handler_def)

lemma script_skips_on_a_host_weekend:
  assumes "SKIP_WEEKENDS env = Some ''true''"
    and "getDay (host_offset_ms clk) (date_now clk) = 0 \<or> getDay (host_offset_ms clk) (date_now clk) = 6"
  shows "main env sl clk = [ConsoleLog]"
  using assms by (auto simp add: main_def Let_def)

text \<open>
  Claim C10 fails for the script. At the instant of \<open>example_clock\<close> it is Saturday in
  London and Friday on a host that runs in UTC: with weekend skipping enabled the script
  finds day 5 and posts the prompt to the channel and to both users.
\<close>

theorem script_sends_on_a_london_saturday:
  "SKIP_WEEKENDS example_env = Some ''true''
   \<and> ukDate example_clock = ''Sat''
   \<and> getDay (host_offset_ms example_clock) (date_now example_clock) = 5
   \<and> main example_env example_slack example_clock =
       [PromptPost ''C0123456789'' (buildMoodMessage None None), ConsoleLog,
        PromptPost ''U0123456789'' (buildMoodMessage None None), ConsoleLog,
        PromptPost ''U9876543210'' (buildMoodMessage None None), ConsoleLog]"
proof -
  have d: "getDay (host_offset_ms example_clock) (date_now example_clock) = 5"
    by (simp add: getDay_def example_clock_def)
  have uk: "ukDate example_clock = ''Sat''"
    by (simp add: ukDate_def getDay_def example_clock_def weekday_short_def)
  have ids: "userIds_of example_env = [''U0123456789'', ''U9876543210'']"
    by (simp add: userIds_of_def example_env_def)
  have e: "SKIP_WEEKENDS example_env = Some ''true''" "MOOD_CHANNEL_ID example_env = Some ''C0123456789''"
    by (simp_all add: example_env_def)
  have p: "\<And>c. prompt_post_error example_slack c = None" by (simp add: example_slack_def)
  have "main example_env example_slack example_clock =
       [PromptPost ''C0123456789'' (buildMoodMessage None None), ConsoleLog,
        PromptPost ''U0123456789'' (buildMoodMessage None None), ConsoleLog,
        PromptPost ''U9876543210'' (buildMoodMessage None None), ConsoleLog]"
    by (simp add: main_def d ids e p truthy_def Let_def)
  with d uk e show ?thesis by simp
qed

section \<open>Two complete runs\<close>

text \<open>
  The sender for the members of a channel, authorized and with weekend skipping off, on
  a workspace whose member list comes in one page: the loop over the pages ends, the one
  member is looked up and gets the prompt.
\<close>

lemma members_of_example:
  "fetch_members example_slack ''C0123456789'' None [] = Some (Returned [''U0123456789''])"
  by (subst fetch_members.simps) (simp add: example_slack_def truthy_def)

lemma daily_checkin_on_a_weekday:
  "daily_checkin_handler (example_env\<lparr>SKIP_WEEKENDS := None\<rparr>) example_slack example_clock
     (example_request\<lparr>authorization := Some ''Bearer s3cr3t''\<rparr>)
   = Some (Responded 200
             (JsonResults ''Daily check-in sent to 1/1 members''
                [\<lparr>result_userId = ''U0123456789'', success = True, result_error = None\<rparr>]),
           [UsersInfo ''U0123456789'', PromptPost ''U0123456789'' (buildMoodMessage None None)])"
proof -
  have h: "is_human example_slack ''U0123456789''"
    by (simp add: is_human_def example_slack_def example_user_def)
  have l: "lookup_calls example_slack ''U0123456789'' = [UsersInfo ''U0123456789'']"
    by (simp add: lookup_calls_def example_slack_def)
  have s: "send_prompt example_slack ''U0123456789'' ''U0123456789''
             = (PromptPost ''U0123456789'' (buildMoodMessage None None),
                \<lparr>result_userId = ''U0123456789'', success = True, result_error = None\<rparr>)"
    by (simp add: send_prompt_def example_slack_def)
  have n: "show_nat (Suc 0) = ''1''" by code_simp
  show ?thesis
    by (simp add: daily_checkin_handler_def bearer_def example_env_def members_of_example h l s n)
qed

text \<open>
  The scenario of the specification: score 3 pressed in \<open>C1\<close> on \<open>T1\<close>, the text
  \<open>tired\<close> submitted. The row is written, the message is edited, no fallback is
  sent, the submitter gets the direct message and the mood channel the announcement.
\<close>

lemma scenario_trace:
  "saveMoodEntry example_env example_slack [] ''U0123456789'' example_token (Some ''tired'')
      (Some ''T0001'')
   = ([UsersInfo ''U0123456789'',
       Insert example_row,
       ChatUpdate ''C1'' ''T1''
         (check_mark @ '' *Ana* is feeling '' @ emoji (MOODS ! 2) @ '' today.'')
         (''Mood recorded: Ana - '' @ emoji (MOODS ! 2)),
       DirectMessage ''U0123456789'' (confirmationText ''Ana'' example_token (Some ''tired'')),
       MoodChannelPost ''C0123456789''
         (''*Ana* is feeling '' @ emoji (MOODS ! 2) @ '' today'' @ context_suffix (Some ''tired''))],
      [example_row])"
proof -
  have u: "users_info example_slack ''U0123456789'' = Returned (Some example_user)"
    by (simp add: example_slack_def)
  have up: "updateOriginal example_slack example_token ''Ana''
    = ([ChatUpdate ''C1'' ''T1''
         (check_mark @ '' *Ana* is feeling '' @ emoji (MOODS ! 2) @ '' today.'')
         (''Mood recorded: Ana - '' @ emoji (MOODS ! 2))], True)"
    by (simp add: updateOriginal_def example_token_def example_slack_def)
  have mc: "\<And>txt. postToMoodChannel example_env example_slack txt
              = [MoodChannelPost ''C0123456789'' txt]"
    by (simp add: postToMoodChannel_def example_env_def example_slack_def)
  have ins: "insert_fails example_slack = False"
    by (simp add: example_slack_def)
  have dm: "\<not> dm_confirmation_throws example_slack"
    by (simp add: example_slack_def)
  have un: "user_name example_user = Some ''ana''" by (simp add: example_user_def)
  have md: "meta_score example_token = 3" "meta_emoji example_token = emoji (MOODS ! 2)"
    by (simp_all add: example_token_def)
  show ?thesis
    by (simp add: saveMoodEntry_def u example_displayName up mc dm ins un md example_row_def
        insert_entry_def mood_score_check_def Let_def)
qed

end
